theory Spec2Isabelle
  imports Complex_Main "HOL-Library.Sublist"
begin

section \<open>JavaScript strings and values\<close>

text \<open>
  Strings of the server are modelled as \<open>string\<close> (lists of characters).
  \<open>String.prototype.toLowerCase\<close> is the case mapping on the letters \<open>A\<close> to \<open>Z\<close>
  (character codes 65 to 90); every other character is left as it is.
  \<open>String.prototype.includes\<close> is the test for a contiguous substring: some suffix of
  the string starts with the searched text.
\<close>

definition toLowerCase_char :: "char \<Rightarrow> char" where
  "toLowerCase_char c =
     (let n = (of_char c :: nat) in if 65 \<le> n \<and> n \<le> 90 then char_of (n + 32) else c)"

definition toLowerCase :: "string \<Rightarrow> string" where
  "toLowerCase s = map toLowerCase_char s"

fun str_includes :: "string \<Rightarrow> string \<Rightarrow> bool" where
  "str_includes [] sub = (sub = [])"
| "str_includes (c # cs) sub = (prefix sub (c # cs) \<or> str_includes cs sub)"

text \<open>
  The values that the handlers put into their answers: the object literals of the
  source become \<open>JObj\<close> with the properties in the order they are written, arrays
  become \<open>JArr\<close>, and a property whose value is \<open>undefined\<close> holds \<open>JUndefined\<close>.
  A number is a rational number: it may have a fraction.
\<close>

datatype js_value =
    JUndefined
  | JNull
  | JBool bool
  | JNum rat
  | JStr string
  | JArr "js_value list"
  | JObj "(string \<times> js_value) list"

section \<open>Data model (zendesk-client.ts)\<close>

record via =
  channel :: string

text \<open>
  \<open>interface ZendeskTicket\<close>. The fields carry the prefix \<open>tk_\<close>, because the
  interfaces of the source share field names (\<open>id\<close>, \<open>created_at\<close>, ...).
  Optional fields are options; the numbers of the records (ids, counts) are integers.
\<close>

record ZendeskTicket =
  tk_id :: int
  tk_subject :: string
  tk_description :: string
  tk_status :: string
  tk_priority :: string
  tk_created_at :: string
  tk_updated_at :: string
  tk_tags :: "string list"
  tk_custom_fields :: "(int \<times> js_value) list option"
  tk_via :: "via option"

section \<open>Classification of tickets (index.ts, \<open>search_feature_feedback\<close>)\<close>

text \<open>
  The three arrow functions given to \<open>tickets.results.filter\<close>.
  \<open>Array.prototype.some\<close> is \<open>list_ex\<close>, \<open>Array.prototype.filter\<close> is \<open>filter\<close>.
\<close>

definition is_bug_report :: "ZendeskTicket \<Rightarrow> bool" where
  "is_bug_report t =
     (list_ex (\<lambda>tag. str_includes (toLowerCase tag) ''bug'') (tk_tags t) \<or>
      str_includes (toLowerCase (tk_subject t)) ''bug'' \<or>
      str_includes (toLowerCase (tk_subject t)) ''issue'')"

definition is_feature_request :: "ZendeskTicket \<Rightarrow> bool" where
  "is_feature_request t =
     (list_ex (\<lambda>tag. str_includes (toLowerCase tag) ''feature'' \<or>
                      str_includes (toLowerCase tag) ''enhancement'') (tk_tags t) \<or>
      str_includes (toLowerCase (tk_subject t)) ''feature request'' \<or>
      str_includes (toLowerCase (tk_subject t)) ''enhancement'')"

definition is_support_question :: "ZendeskTicket \<Rightarrow> bool" where
  "is_support_question t =
     (\<not> list_ex (\<lambda>tag. str_includes (toLowerCase tag) ''bug'' \<or>
                        str_includes (toLowerCase tag) ''feature'') (tk_tags t))"

record categorized_tickets =
  bug_reports :: "ZendeskTicket list"
  feature_requests :: "ZendeskTicket list"
  support_questions :: "ZendeskTicket list"

definition categorized :: "ZendeskTicket list \<Rightarrow> categorized_tickets" where
  "categorized tickets =
     \<lparr> bug_reports = filter is_bug_report tickets,
       feature_requests = filter is_feature_request tickets,
       support_questions = filter is_support_question tickets \<rparr>"

section \<open>The API client (zendesk-client.ts)\<close>

text \<open>
  The numbers of the client (ids, pages) are integers. \<open>toString_num\<close> is \<open>Number.prototype.toString\<close> and the
  conversion of a number inside a template literal: decimal digits, with a leading
  minus sign for a negative number.
\<close>

fun digits_of :: "nat \<Rightarrow> string" where
  "digits_of n =
     (if n < 10 then [char_of (48 + n)] else digits_of (n div 10) @ [char_of (48 + n mod 10)])"

declare digits_of.simps [simp del]

definition toString_num :: "int \<Rightarrow> string" where
  "toString_num i = (if i < 0 then CHR ''-'' # digits_of (nat (- i)) else digits_of (nat i))"

record ZendeskArticle =
  ar_id :: int
  ar_title :: string
  ar_body :: string
  ar_author_id :: int
  ar_created_at :: string
  ar_updated_at :: string
  ar_html_url :: string
  ar_section_id :: int
  ar_label_names :: "string list option"

record TicketComment =
  cm_id :: int
  cm_body :: string
  cm_author_id :: int
  cm_created_at :: string
  cm_public :: bool

record 'a SearchResult =
  sr_results :: "'a list"
  sr_count :: int
  sr_next_page :: "string option"
  sr_previous_page :: "string option"

record ZendeskConfig =
  subdomain :: string
  email :: string
  apiToken :: string

record ZendeskClient =
  baseUrl :: string
  authHeader :: string

text \<open>
  The constructor; the base64 encoding of \<open>Buffer\<close> is a parameter.
\<close>

definition new_ZendeskClient :: "(string \<Rightarrow> string) \<Rightarrow> ZendeskConfig \<Rightarrow> ZendeskClient" where
  "new_ZendeskClient base64 config =
     \<lparr> baseUrl = ''https://'' @ subdomain config @ ''.zendesk.com/api/v2'',
       authHeader = ''Basic '' @ base64 (email config @ ''/token:'' @ apiToken config) \<rparr>"

text \<open>
  A value that is thrown, or with which a promise is rejected: an \<open>Error\<close> object with
  its message, or any other value, kept as the text \<open>String(value)\<close>.
\<close>

datatype thrown = ErrorObj string | NonError string

text \<open>
  One call of \<open>fetch\<close>. The request is the address (base URL and endpoint), the query
  parameters in the order they are appended, and the headers. The response has its
  status, its body as text, and its body decoded by \<open>response.json()\<close>, which is
  either rejected or a value of the type \<open>T\<close> that the caller of \<open>request<T>\<close>
  names. \<open>response.ok\<close> holds for the statuses 200 to 299.
\<close>

record http_request =
  rq_url :: string
  rq_params :: "(string \<times> string) list"
  rq_headers :: "(string \<times> string) list"

record 'a http_response =
  rs_status :: int
  rs_text :: string
  rs_json :: "thrown + 'a"

definition ok :: "'a http_response \<Rightarrow> bool" where
  "ok response = (200 \<le> rs_status response \<and> rs_status response < 300)"

text \<open>
  The remote API: what \<open>fetch\<close> answers to a request, one field for each response
  type the client asks for. \<open>Inl\<close> is a rejected \<open>fetch\<close> (a network failure). The
  wrapper objects \<open>{ticket: ...}\<close>, \<open>{article: ...}\<close> and \<open>{comments: ...}\<close> of the
  single-item endpoints are left out: the field holds the wrapped value.
\<close>

record remote_api =
  fetch_ticket_search :: "http_request \<Rightarrow> thrown + ZendeskTicket SearchResult http_response"
  fetch_ticket :: "http_request \<Rightarrow> thrown + ZendeskTicket http_response"
  fetch_article_search :: "http_request \<Rightarrow> thrown + ZendeskArticle SearchResult http_response"
  fetch_article :: "http_request \<Rightarrow> thrown + ZendeskArticle http_response"
  fetch_comments :: "http_request \<Rightarrow> thrown + TicketComment list http_response"

text \<open>
  \<open>ZendeskClient.request\<close>: \<open>request_of\<close> is the request it builds (the URL with its
  parameters, and the headers). The state that is passed along is the list of the
  requests sent so far, oldest first; the result is the value returned or the value thrown.
\<close>

definition request_of :: "ZendeskClient \<Rightarrow> string \<Rightarrow> (string \<times> string) list option \<Rightarrow> http_request" where
  "request_of client endpoint params =
     \<lparr> rq_url = baseUrl client @ endpoint,
       rq_params = (case params of None \<Rightarrow> [] | Some ps \<Rightarrow> ps),
       rq_headers = [(''Authorization'', authHeader client),
                     (''Content-Type'', ''application/json'')] \<rparr>"

definition request ::
  "(http_request \<Rightarrow> thrown + 'a http_response) \<Rightarrow> ZendeskClient \<Rightarrow> string \<Rightarrow>
     (string \<times> string) list option \<Rightarrow> http_request list \<Rightarrow> (thrown + 'a) \<times> http_request list" where
  "request fetch client endpoint params sent =
     (let url = request_of client endpoint params;
          sent' = sent @ [url]
      in case fetch url of
           Inl e \<Rightarrow> (Inl e, sent')
         | Inr response \<Rightarrow>
             if \<not> ok response
             then (Inl (ErrorObj (''Zendesk API error ('' @ toString_num (rs_status response) @
                                    ''): '' @ rs_text response)), sent')
             else (rs_json response, sent'))"

text \<open>An optional parameter with its default value.\<close>

definition dflt :: "'a \<Rightarrow> 'a option \<Rightarrow> 'a" where
  "dflt d v = (case v of None \<Rightarrow> d | Some x \<Rightarrow> x)"

definition searchTickets ::
  "remote_api \<Rightarrow> ZendeskClient \<Rightarrow> string \<Rightarrow> int option \<Rightarrow> int option \<Rightarrow> http_request list \<Rightarrow>
     (thrown + ZendeskTicket SearchResult) \<times> http_request list" where
  "searchTickets remote client query page perPage sent =
     request (fetch_ticket_search remote) client ''/search.json''
       (Some [(''query'', ''type:ticket '' @ query),
              (''per_page'', toString_num (dflt 50 perPage)),
              (''page'', toString_num (dflt 1 page))]) sent"

definition getTicket ::
  "remote_api \<Rightarrow> ZendeskClient \<Rightarrow> int \<Rightarrow> http_request list \<Rightarrow>
     (thrown + ZendeskTicket) \<times> http_request list" where
  "getTicket remote client ticketId sent =
     request (fetch_ticket remote) client (''/tickets/'' @ toString_num ticketId @ ''.json'') None sent"

definition searchArticles ::
  "remote_api \<Rightarrow> ZendeskClient \<Rightarrow> string \<Rightarrow> int option \<Rightarrow> int option \<Rightarrow> http_request list \<Rightarrow>
     (thrown + ZendeskArticle SearchResult) \<times> http_request list" where
  "searchArticles remote client query page perPage sent =
     request (fetch_article_search remote) client ''/help_center/articles/search.json''
       (Some [(''query'', query),
              (''per_page'', toString_num (dflt 50 perPage)),
              (''page'', toString_num (dflt 1 page))]) sent"

definition getArticle ::
  "remote_api \<Rightarrow> ZendeskClient \<Rightarrow> int \<Rightarrow> http_request list \<Rightarrow>
     (thrown + ZendeskArticle) \<times> http_request list" where
  "getArticle remote client articleId sent =
     request (fetch_article remote) client
       (''/help_center/articles/'' @ toString_num articleId @ ''.json'') None sent"

definition getTicketComments ::
  "remote_api \<Rightarrow> ZendeskClient \<Rightarrow> int \<Rightarrow> http_request list \<Rightarrow>
     (thrown + TicketComment list) \<times> http_request list" where
  "getTicketComments remote client ticketId sent =
     request (fetch_comments remote) client
       (''/tickets/'' @ toString_num ticketId @ ''/comments.json'') None sent"

definition getTicketsByTag ::
  "remote_api \<Rightarrow> ZendeskClient \<Rightarrow> string \<Rightarrow> int option \<Rightarrow> int option \<Rightarrow> http_request list \<Rightarrow>
     (thrown + ZendeskTicket SearchResult) \<times> http_request list" where
  "getTicketsByTag remote client tag page perPage sent =
     searchTickets remote client (''tags:'' @ tag) (Some (dflt 1 page)) (Some (dflt 50 perPage)) sent"

section \<open>JavaScript dates\<close>

text \<open>
  The \<open>Date\<close> operations the source calls, after the ECMAScript definitions. A time
  value is a number of milliseconds since 1 January 1970 UTC. \<open>getDate\<close> and \<open>setDate\<close>
  work on the local time of the host, \<open>toISOString\<close> on UTC. The host is a parameter:
  its clock \<open>now\<close> and its time zone \<open>LocalTZA\<close>, the offset of local time from UTC
  at a time value (a UTC one when the flag is true, a local one when it is false).
  \<open>tickets_settle_first\<close> says which of two promises that both fail is rejected first.
\<close>

record host =
  now :: int
  LocalTZA :: "int \<Rightarrow> bool \<Rightarrow> int"
  tickets_settle_first :: bool

definition msPerDay :: int where
  "msPerDay = 86400000"

definition Day :: "int \<Rightarrow> int" where
  "Day t = t div msPerDay"

definition TimeWithinDay :: "int \<Rightarrow> int" where
  "TimeWithinDay t = t mod msPerDay"

definition DaysInYear :: "int \<Rightarrow> int" where
  "DaysInYear y =
     (if y mod 4 \<noteq> 0 then 365 else if y mod 100 \<noteq> 0 then 366
      else if y mod 400 \<noteq> 0 then 365 else 366)"

definition DayFromYear :: "int \<Rightarrow> int" where
  "DayFromYear y =
     365 * (y - 1970) + (y - 1969) div 4 - (y - 1901) div 100 + (y - 1601) div 400"

text \<open>
  \<open>YearFromTime\<close> is the largest year that starts at or before the time value: the
  year is estimated from the mean length of a year and corrected by one if needed.
\<close>

definition YearFromTime :: "int \<Rightarrow> int" where
  "YearFromTime t =
     (let d = Day t; y = 1970 + (d * 10000) div 3652425
      in if DayFromYear (y + 1) \<le> d then y + 1
         else if DayFromYear y \<le> d then y
         else y - 1)"

definition InLeapYear :: "int \<Rightarrow> int" where
  "InLeapYear t = (if DaysInYear (YearFromTime t) = 366 then 1 else 0)"

definition DayWithinYear :: "int \<Rightarrow> int" where
  "DayWithinYear t = Day t - DayFromYear (YearFromTime t)"

text \<open>The day of the year on which month \<open>m\<close> (0 to 11) starts.\<close>

definition month_start :: "int \<Rightarrow> int \<Rightarrow> int" where
  "month_start m leap =
     (if m = 0 then 0 else if m = 1 then 31
      else (if m = 2 then 59 else if m = 3 then 90 else if m = 4 then 120
            else if m = 5 then 151 else if m = 6 then 181 else if m = 7 then 212
            else if m = 8 then 243 else if m = 9 then 273 else if m = 10 then 304
            else 334) + leap)"

definition MonthFromTime :: "int \<Rightarrow> int" where
  "MonthFromTime t =
     (let d = DayWithinYear t; leap = InLeapYear t
      in if d < 31 then 0 else if d < 59 + leap then 1 else if d < 90 + leap then 2
         else if d < 120 + leap then 3 else if d < 151 + leap then 4
         else if d < 181 + leap then 5 else if d < 212 + leap then 6
         else if d < 243 + leap then 7 else if d < 273 + leap then 8
         else if d < 304 + leap then 9 else if d < 334 + leap then 10 else 11)"

definition DateFromTime :: "int \<Rightarrow> int" where
  "DateFromTime t = DayWithinYear t - month_start (MonthFromTime t) (InLeapYear t) + 1"

definition HourFromTime :: "int \<Rightarrow> int" where
  "HourFromTime t = (t div 3600000) mod 24"

definition MinFromTime :: "int \<Rightarrow> int" where
  "MinFromTime t = (t div 60000) mod 60"

definition SecFromTime :: "int \<Rightarrow> int" where
  "SecFromTime t = (t div 1000) mod 60"

definition msFromTime :: "int \<Rightarrow> int" where
  "msFromTime t = t mod 1000"

text \<open>
  \<open>ToIntegerOrInfinity\<close> cuts the fraction of a number off, toward zero. \<open>MakeDay\<close>
  applies it to the day of the month it is given.
\<close>

definition ToIntegerOrInfinity :: "rat \<Rightarrow> int" where
  "ToIntegerOrInfinity x = (if 0 \<le> x then \<lfloor>x\<rfloor> else \<lceil>x\<rceil>)"

definition MakeDay :: "int \<Rightarrow> int \<Rightarrow> rat \<Rightarrow> int" where
  "MakeDay year month date =
     (let ym = year + month div 12; mn = month mod 12; dt = ToIntegerOrInfinity date
      in DayFromYear ym + month_start mn (if DaysInYear ym = 366 then 1 else 0) + dt - 1)"

definition MakeDate :: "int \<Rightarrow> int \<Rightarrow> int" where
  "MakeDate day time = day * msPerDay + time"

text \<open>A time value out of the range of \<open>Date\<close> becomes \<open>NaN\<close>, which is \<open>None\<close>.\<close>

definition TimeClip :: "int \<Rightarrow> int option" where
  "TimeClip t = (if \<bar>t\<bar> > 8640000000000000 then None else Some t)"

definition LocalTime :: "host \<Rightarrow> int \<Rightarrow> int" where
  "LocalTime h t = t + LocalTZA h t True"

definition UTC :: "host \<Rightarrow> int \<Rightarrow> int" where
  "UTC h t = t - LocalTZA h t False"

text \<open>A \<open>Date\<close> object is its time value, \<open>None\<close> for an invalid date.\<close>

definition new_Date :: "host \<Rightarrow> int option" where
  "new_Date h = Some (now h)"

definition getDate :: "host \<Rightarrow> int option \<Rightarrow> int option" where
  "getDate h tv = (case tv of None \<Rightarrow> None | Some t \<Rightarrow> Some (DateFromTime (LocalTime h t)))"

definition setDate :: "host \<Rightarrow> int option \<Rightarrow> rat option \<Rightarrow> int option" where
  "setDate h tv date =
     (case tv of
        None \<Rightarrow> None
      | Some t0 \<Rightarrow>
          (case date of
             None \<Rightarrow> None
           | Some dt \<Rightarrow>
               (let t = LocalTime h t0;
                    newDate = MakeDate (MakeDay (YearFromTime t) (MonthFromTime t) dt) (TimeWithinDay t)
                in TimeClip (UTC h newDate))))"

text \<open>A number in decimal digits, filled with zeros on the left up to a width.\<close>

definition pad :: "nat \<Rightarrow> int \<Rightarrow> string" where
  "pad w n = (let ds = digits_of (nat n) in replicate (w - length ds) CHR ''0'' @ ds)"

definition iso_year :: "int \<Rightarrow> string" where
  "iso_year y =
     (if 0 \<le> y \<and> y \<le> 9999 then pad 4 y
      else (if y < 0 then ''-'' else ''+'') @ pad 6 \<bar>y\<bar>)"

text \<open>The date part of the ISO format, \<open>YYYY-MM-DD\<close> for the years 0 to 9999.\<close>

definition iso_date :: "int \<Rightarrow> string" where
  "iso_date t =
     iso_year (YearFromTime t) @ ''-'' @ pad 2 (MonthFromTime t + 1) @ ''-'' @ pad 2 (DateFromTime t)"

definition iso_time :: "int \<Rightarrow> string" where
  "iso_time t =
     pad 2 (HourFromTime t) @ '':'' @ pad 2 (MinFromTime t) @ '':'' @ pad 2 (SecFromTime t) @
     ''.'' @ pad 3 (msFromTime t)"

definition toISOString :: "int option \<Rightarrow> thrown + string" where
  "toISOString tv =
     (case tv of
        None \<Rightarrow> Inl (ErrorObj ''Invalid time value'')
      | Some t \<Rightarrow> Inr (iso_date t @ ''T'' @ iso_time t @ ''Z''))"

text \<open>\<open>s.split('T')[0]\<close>: the text before the first \<open>T\<close>.\<close>

definition before_T :: "string \<Rightarrow> string" where
  "before_T s = takeWhile (\<lambda>c. c \<noteq> CHR ''T'') s"

text \<open>
  The three lines that compute the date threshold, shared by \<open>getRecentTickets\<close>
  (with 30 days) and \<open>search_feature_feedback\<close> (with \<open>days_back\<close>):
  \<^verbatim>\<open>const d = new Date(); d.setDate(d.getDate() - days); d.toISOString().split('T')[0]\<close>
  The number of days may have a fraction. The subtraction is exact, as it is on
  JavaScript numbers for whole numbers of days and for halves.
\<close>

definition date_threshold :: "host \<Rightarrow> rat \<Rightarrow> thrown + string" where
  "date_threshold h days =
     (let d = new_Date h;
          d' = setDate h d (map_option (\<lambda>date. of_int date - days) (getDate h d))
      in case toISOString d' of Inl e \<Rightarrow> Inl e | Inr s \<Rightarrow> Inr (before_T s))"

text \<open>
  The number of days by which \<open>setDate(getDate() - days)\<close> moves a date whose day of the
  month is \<open>date\<close>: the fraction of \<open>date - days\<close> is cut off toward zero.
\<close>

definition days_moved_back :: "int \<Rightarrow> rat \<Rightarrow> int" where
  "days_moved_back date days = date - ToIntegerOrInfinity (of_int date - days)"

definition getRecentTickets ::
  "host \<Rightarrow> remote_api \<Rightarrow> ZendeskClient \<Rightarrow> int option \<Rightarrow> int option \<Rightarrow> http_request list \<Rightarrow>
     (thrown + ZendeskTicket SearchResult) \<times> http_request list" where
  "getRecentTickets h remote client page perPage sent =
     (case date_threshold h 30 of
        Inl e \<Rightarrow> (Inl e, sent)
      | Inr dateStr \<Rightarrow>
          searchTickets remote client (''created>'' @ dateStr)
            (Some (dflt 1 page)) (Some (dflt 50 perPage)) sent)"

text \<open>
  The calendar date, in the ISO format of \<open>toISOString\<close>, of the day with a given number
  (days since 1 January 1970, UTC).
\<close>

definition utc_date_string :: "int \<Rightarrow> string" where
  "utc_date_string day = iso_date (day * msPerDay)"

text \<open>
  Two hosts: one on UTC, and one whose local time is one hour ahead of UTC until
  31 March 2024, 01:00 UTC, and two hours ahead from then on (Central European time
  around the start of summer time in 2024).
\<close>

definition utc_zone :: "int \<Rightarrow> bool \<Rightarrow> int" where
  "utc_zone t isUTC = 0"

definition cet_zone_2024 :: "int \<Rightarrow> bool \<Rightarrow> int" where
  "cet_zone_2024 t isUTC =
     (if isUTC then (if t < 1711846800000 then 3600000 else 7200000)
      else (if t < 1711854000000 then 3600000 else 7200000))"

section \<open>The tool dispatcher (index.ts)\<close>

text \<open>
  The names of the catalog \<open>TOOLS\<close>, in its order.
\<close>

definition TOOLS :: "string list" where
  "TOOLS = [''search_tickets'', ''get_ticket'', ''search_articles'', ''get_article'',
            ''search_feature_feedback'', ''get_tickets_by_tag'']"

text \<open>
  The arguments of a call, with the types the handlers assert for them: a required
  argument is a value, an optional one an option. A handler reads its own arguments only.
\<close>

record tool_arguments =
  a_query :: string
  a_page :: "int option"
  a_per_page :: "int option"
  a_ticket_id :: int
  a_include_comments :: "bool option"
  a_article_id :: int
  a_feature_name :: string
  a_include_solved :: "bool option"
  a_days_back :: "rat option"
  a_tag :: string

text \<open>
  The response envelope. Its text is either \<open>JSON.stringify(value, null, 2)\<close>, kept
  as the value that is printed, or a plain text. \<open>isError\<close> is absent (\<open>None\<close>) in an
  answer and \<open>true\<close> in an error response.
\<close>

datatype text_body = Stringified js_value | Plain string

record content_item =
  c_type :: string
  c_text :: text_body

record tool_response =
  content :: "content_item list"
  isError :: "bool option"

definition json_response :: "js_value \<Rightarrow> tool_response" where
  "json_response v = \<lparr> content = [\<lparr> c_type = ''text'', c_text = Stringified v \<rparr>], isError = None \<rparr>"

text \<open>\<open>!!s\<close> for a text or \<open>null\<close>.\<close>

definition truthy :: "string option \<Rightarrow> bool" where
  "truthy s = (case s of None \<Rightarrow> False | Some x \<Rightarrow> x \<noteq> [])"

definition js_strings :: "string list \<Rightarrow> js_value" where
  "js_strings xs = JArr (map JStr xs)"

definition js_optional_strings :: "string list option \<Rightarrow> js_value" where
  "js_optional_strings xs = (case xs of None \<Rightarrow> JUndefined | Some ys \<Rightarrow> js_strings ys)"

definition js_custom_fields :: "(int \<times> js_value) list option \<Rightarrow> js_value" where
  "js_custom_fields cf =
     (case cf of None \<Rightarrow> JUndefined
      | Some fs \<Rightarrow> JArr (map (\<lambda>(i, v). JObj [(''id'', JNum (of_int i)), (''value'', v)]) fs))"

text \<open>The object literals that the handlers map over tickets, comments and articles.\<close>

definition search_ticket_entry :: "ZendeskTicket \<Rightarrow> js_value" where
  "search_ticket_entry ticket =
     JObj [(''id'', JNum (of_int (tk_id ticket))),
           (''subject'', JStr (tk_subject ticket)),
           (''description'', JStr (tk_description ticket)),
           (''status'', JStr (tk_status ticket)),
           (''priority'', JStr (tk_priority ticket)),
           (''created_at'', JStr (tk_created_at ticket)),
           (''updated_at'', JStr (tk_updated_at ticket)),
           (''tags'', js_strings (tk_tags ticket)),
           (''channel'', case tk_via ticket of None \<Rightarrow> JUndefined | Some v \<Rightarrow> JStr (channel v))]"

definition full_ticket_entry :: "ZendeskTicket \<Rightarrow> js_value" where
  "full_ticket_entry ticket =
     JObj [(''id'', JNum (of_int (tk_id ticket))),
           (''subject'', JStr (tk_subject ticket)),
           (''description'', JStr (tk_description ticket)),
           (''status'', JStr (tk_status ticket)),
           (''priority'', JStr (tk_priority ticket)),
           (''created_at'', JStr (tk_created_at ticket)),
           (''updated_at'', JStr (tk_updated_at ticket)),
           (''tags'', js_strings (tk_tags ticket)),
           (''custom_fields'', js_custom_fields (tk_custom_fields ticket))]"

definition comment_entry :: "TicketComment \<Rightarrow> js_value" where
  "comment_entry comment =
     JObj [(''id'', JNum (of_int (cm_id comment))),
           (''body'', JStr (cm_body comment)),
           (''author_id'', JNum (of_int (cm_author_id comment))),
           (''created_at'', JStr (cm_created_at comment)),
           (''public'', JBool (cm_public comment))]"

definition search_article_entry :: "ZendeskArticle \<Rightarrow> js_value" where
  "search_article_entry article =
     JObj [(''id'', JNum (of_int (ar_id article))),
           (''title'', JStr (ar_title article)),
           (''body'', JStr (ar_body article)),
           (''url'', JStr (ar_html_url article)),
           (''created_at'', JStr (ar_created_at article)),
           (''updated_at'', JStr (ar_updated_at article)),
           (''labels'', js_optional_strings (ar_label_names article))]"

definition full_article_entry :: "ZendeskArticle \<Rightarrow> js_value" where
  "full_article_entry article =
     JObj [(''id'', JNum (of_int (ar_id article))),
           (''title'', JStr (ar_title article)),
           (''body'', JStr (ar_body article)),
           (''url'', JStr (ar_html_url article)),
           (''author_id'', JNum (of_int (ar_author_id article))),
           (''created_at'', JStr (ar_created_at article)),
           (''updated_at'', JStr (ar_updated_at article)),
           (''labels'', js_optional_strings (ar_label_names article))]"

text \<open>
  The entries of \<open>bug_reports\<close> and \<open>feature_requests\<close> (the same literal, also used by
  \<open>get_tickets_by_tag\<close>), of \<open>support_questions\<close> and of \<open>related_articles\<close>.
\<close>

definition priority_ticket_entry :: "ZendeskTicket \<Rightarrow> js_value" where
  "priority_ticket_entry t =
     JObj [(''id'', JNum (of_int (tk_id t))),
           (''subject'', JStr (tk_subject t)),
           (''status'', JStr (tk_status t)),
           (''priority'', JStr (tk_priority t)),
           (''created_at'', JStr (tk_created_at t)),
           (''tags'', js_strings (tk_tags t))]"

definition support_question_entry :: "ZendeskTicket \<Rightarrow> js_value" where
  "support_question_entry t =
     JObj [(''id'', JNum (of_int (tk_id t))),
           (''subject'', JStr (tk_subject t)),
           (''status'', JStr (tk_status t)),
           (''created_at'', JStr (tk_created_at t)),
           (''tags'', js_strings (tk_tags t))]"

definition related_article_entry :: "ZendeskArticle \<Rightarrow> js_value" where
  "related_article_entry a =
     JObj [(''id'', JNum (of_int (ar_id a))),
           (''title'', JStr (ar_title a)),
           (''url'', JStr (ar_html_url a)),
           (''labels'', js_optional_strings (ar_label_names a))]"

text \<open>
  The handlers, one for each \<open>case\<close> of the \<open>switch\<close>. Each takes the requests sent so
  far and returns the response, or the value thrown, with the requests sent by then.
\<close>

definition handle_search_tickets ::
  "remote_api \<Rightarrow> ZendeskClient \<Rightarrow> tool_arguments \<Rightarrow> http_request list \<Rightarrow>
     (thrown + tool_response) \<times> http_request list" where
  "handle_search_tickets remote client args sent =
     (let query = a_query args; page = dflt 1 (a_page args); per_page = dflt 50 (a_per_page args)
      in case searchTickets remote client query (Some page) (Some per_page) sent of
           (Inl e, sent') \<Rightarrow> (Inl e, sent')
         | (Inr results, sent') \<Rightarrow>
             (Inr (json_response
                (JObj [(''total_count'', JNum (of_int (sr_count results))),
                       (''page'', JNum (of_int page)),
                       (''per_page'', JNum (of_int per_page)),
                       (''has_more'', JBool (truthy (sr_next_page results))),
                       (''tickets'', JArr (map search_ticket_entry (sr_results results)))])),
              sent'))"

definition handle_get_ticket ::
  "remote_api \<Rightarrow> ZendeskClient \<Rightarrow> tool_arguments \<Rightarrow> http_request list \<Rightarrow>
     (thrown + tool_response) \<times> http_request list" where
  "handle_get_ticket remote client args sent =
     (let ticket_id = a_ticket_id args; include_comments = dflt True (a_include_comments args)
      in case getTicket remote client ticket_id sent of
           (Inl e, sent1) \<Rightarrow> (Inl e, sent1)
         | (Inr ticket, sent1) \<Rightarrow>
             (case (if include_comments then getTicketComments remote client ticket_id sent1
                    else (Inr [], sent1)) of
                (Inl e, sent2) \<Rightarrow> (Inl e, sent2)
              | (Inr comments, sent2) \<Rightarrow>
                  (Inr (json_response
                     (JObj [(''ticket'', full_ticket_entry ticket),
                            (''comments'', JArr (map comment_entry comments))])),
                   sent2)))"

definition handle_search_articles ::
  "remote_api \<Rightarrow> ZendeskClient \<Rightarrow> tool_arguments \<Rightarrow> http_request list \<Rightarrow>
     (thrown + tool_response) \<times> http_request list" where
  "handle_search_articles remote client args sent =
     (let query = a_query args; page = dflt 1 (a_page args); per_page = dflt 50 (a_per_page args)
      in case searchArticles remote client query (Some page) (Some per_page) sent of
           (Inl e, sent') \<Rightarrow> (Inl e, sent')
         | (Inr results, sent') \<Rightarrow>
             (Inr (json_response
                (JObj [(''total_count'', JNum (of_int (sr_count results))),
                       (''page'', JNum (of_int page)),
                       (''per_page'', JNum (of_int per_page)),
                       (''has_more'', JBool (truthy (sr_next_page results))),
                       (''articles'', JArr (map search_article_entry (sr_results results)))])),
              sent'))"

definition handle_get_article ::
  "remote_api \<Rightarrow> ZendeskClient \<Rightarrow> tool_arguments \<Rightarrow> http_request list \<Rightarrow>
     (thrown + tool_response) \<times> http_request list" where
  "handle_get_article remote client args sent =
     (case getArticle remote client (a_article_id args) sent of
        (Inl e, sent') \<Rightarrow> (Inl e, sent')
      | (Inr article, sent') \<Rightarrow> (Inr (json_response (full_article_entry article)), sent'))"

text \<open>The ticket query of \<open>search_feature_feedback\<close> (the lines from \<open>dateThreshold\<close> on).\<close>

definition feedback_ticket_query :: "host \<Rightarrow> string \<Rightarrow> bool \<Rightarrow> rat \<Rightarrow> thrown + string" where
  "feedback_ticket_query h feature_name include_solved days_back =
     (case date_threshold h days_back of
        Inl e \<Rightarrow> Inl e
      | Inr dateStr \<Rightarrow>
          (let ticketQuery = feature_name @ '' created>'' @ dateStr
           in Inr (if \<not> include_solved then ticketQuery @ '' status<solved'' else ticketQuery)))"

text \<open>
  \<open>Promise.all\<close> of the two searches: both results, or the value of the promise that
  is rejected first.
\<close>

definition Promise_all :: "host \<Rightarrow> thrown + 'a \<Rightarrow> thrown + 'b \<Rightarrow> thrown + 'a \<times> 'b" where
  "Promise_all h p q =
     (case p of
        Inl e1 \<Rightarrow> (case q of Inl e2 \<Rightarrow> Inl (if tickets_settle_first h then e1 else e2)
                   | Inr b \<Rightarrow> Inl e1)
      | Inr a \<Rightarrow> (case q of Inl e2 \<Rightarrow> Inl e2 | Inr b \<Rightarrow> Inr (a, b)))"

definition feedback_payload ::
  "string \<Rightarrow> rat \<Rightarrow> ZendeskTicket SearchResult \<Rightarrow> ZendeskArticle SearchResult \<Rightarrow> js_value" where
  "feedback_payload feature_name days_back tickets articles =
     (let cat = categorized (sr_results tickets)
      in JObj [(''feature'', JStr feature_name),
               (''search_period_days'', JNum days_back),
               (''summary'',
                  JObj [(''total_tickets'', JNum (of_int (sr_count tickets))),
                        (''bug_reports'', JNum (of_nat (length (bug_reports cat)))),
                        (''feature_requests'', JNum (of_nat (length (feature_requests cat)))),
                        (''support_questions'', JNum (of_nat (length (support_questions cat)))),
                        (''related_articles'', JNum (of_int (sr_count articles)))]),
               (''bug_reports'', JArr (map priority_ticket_entry (bug_reports cat))),
               (''feature_requests'', JArr (map priority_ticket_entry (feature_requests cat))),
               (''support_questions'', JArr (map support_question_entry (support_questions cat))),
               (''related_articles'', JArr (map related_article_entry (sr_results articles)))])"

definition handle_search_feature_feedback ::
  "host \<Rightarrow> remote_api \<Rightarrow> ZendeskClient \<Rightarrow> tool_arguments \<Rightarrow> http_request list \<Rightarrow>
     (thrown + tool_response) \<times> http_request list" where
  "handle_search_feature_feedback h remote client args sent =
     (let feature_name = a_feature_name args;
          include_solved = dflt True (a_include_solved args);
          days_back = dflt 90 (a_days_back args)
      in case feedback_ticket_query h feature_name include_solved days_back of
           Inl e \<Rightarrow> (Inl e, sent)
         | Inr ticketQuery \<Rightarrow>
             (let (r1, sent1) = searchTickets remote client ticketQuery (Some 1) (Some 100) sent;
                  (r2, sent2) = searchArticles remote client feature_name (Some 1) (Some 50) sent1
              in case Promise_all h r1 r2 of
                   Inl e \<Rightarrow> (Inl e, sent2)
                 | Inr (tickets, articles) \<Rightarrow>
                     (Inr (json_response (feedback_payload feature_name days_back tickets articles)),
                      sent2)))"

text \<open>
  The tickets that the ticket search of a \<open>search_feature_feedback\<close> call returns (none
  when the query cannot be built or the search fails).
\<close>

definition feedback_tickets ::
  "host \<Rightarrow> remote_api \<Rightarrow> ZendeskClient \<Rightarrow> tool_arguments \<Rightarrow> http_request list \<Rightarrow>
     ZendeskTicket list" where
  "feedback_tickets h remote client args sent =
     (case feedback_ticket_query h (a_feature_name args) (dflt True (a_include_solved args))
             (dflt 90 (a_days_back args)) of
        Inl e \<Rightarrow> []
      | Inr ticketQuery \<Rightarrow>
          (case fst (searchTickets remote client ticketQuery (Some 1) (Some 100) sent) of
             Inl e \<Rightarrow> []
           | Inr tickets \<Rightarrow> sr_results tickets))"

definition handle_get_tickets_by_tag ::
  "remote_api \<Rightarrow> ZendeskClient \<Rightarrow> tool_arguments \<Rightarrow> http_request list \<Rightarrow>
     (thrown + tool_response) \<times> http_request list" where
  "handle_get_tickets_by_tag remote client args sent =
     (let tag = a_tag args; page = dflt 1 (a_page args); per_page = dflt 50 (a_per_page args)
      in case getTicketsByTag remote client tag (Some page) (Some per_page) sent of
           (Inl e, sent') \<Rightarrow> (Inl e, sent')
         | (Inr results, sent') \<Rightarrow>
             (Inr (json_response
                (JObj [(''tag'', JStr tag),
                       (''total_count'', JNum (of_int (sr_count results))),
                       (''page'', JNum (of_int page)),
                       (''per_page'', JNum (of_int per_page)),
                       (''has_more'', JBool (truthy (sr_next_page results))),
                       (''tickets'', JArr (map priority_ticket_entry (sr_results results)))])),
              sent'))"

text \<open>The body of the \<open>try\<close> block: the \<open>switch\<close> on the name of the tool.\<close>

definition run_tool ::
  "host \<Rightarrow> remote_api \<Rightarrow> ZendeskClient \<Rightarrow> string \<Rightarrow> tool_arguments \<Rightarrow> http_request list \<Rightarrow>
     (thrown + tool_response) \<times> http_request list" where
  "run_tool h remote client name args sent =
     (if name = ''search_tickets'' then handle_search_tickets remote client args sent
      else if name = ''get_ticket'' then handle_get_ticket remote client args sent
      else if name = ''search_articles'' then handle_search_articles remote client args sent
      else if name = ''get_article'' then handle_get_article remote client args sent
      else if name = ''search_feature_feedback''
        then handle_search_feature_feedback h remote client args sent
      else if name = ''get_tickets_by_tag'' then handle_get_tickets_by_tag remote client args sent
      else (Inl (ErrorObj (''Unknown tool: '' @ name)), sent))"

text \<open>The \<open>catch\<close> block: \<open>error instanceof Error ? error.message : String(error)\<close>.\<close>

definition errorMessage :: "thrown \<Rightarrow> string" where
  "errorMessage error = (case error of ErrorObj message \<Rightarrow> message | NonError s \<Rightarrow> s)"

definition error_response :: "thrown \<Rightarrow> tool_response" where
  "error_response error =
     \<lparr> content = [\<lparr> c_type = ''text'', c_text = Plain (''Error: '' @ errorMessage error) \<rparr>],
       isError = Some True \<rparr>"

text \<open>The handler of \<open>CallToolRequestSchema\<close>: the \<open>try\<close> block and its \<open>catch\<close>.\<close>

definition call_tool ::
  "host \<Rightarrow> remote_api \<Rightarrow> ZendeskClient \<Rightarrow> string \<Rightarrow> tool_arguments \<Rightarrow> http_request list \<Rightarrow>
     tool_response \<times> http_request list" where
  "call_tool h remote client name args sent =
     (case run_tool h remote client name args sent of
        (Inr response, sent') \<Rightarrow> (response, sent')
      | (Inl error, sent') \<Rightarrow> (error_response error, sent'))"

text \<open>Reading a response: the property of an object, the items of an array.\<close>

definition property :: "string \<Rightarrow> js_value \<Rightarrow> js_value option" where
  "property k v = (case v of JObj props \<Rightarrow> map_of props k | _ \<Rightarrow> None)"

definition items :: "js_value option \<Rightarrow> js_value list" where
  "items v = (case v of Some (JArr xs) \<Rightarrow> xs | _ \<Rightarrow> [])"

text \<open>The value printed in a response; \<open>undefined\<close> for a response that is a plain text.\<close>

definition payload_of :: "tool_response \<Rightarrow> js_value" where
  "payload_of response =
     (case content response of
        [c] \<Rightarrow> (case c_text c of Stringified v \<Rightarrow> v | Plain s \<Rightarrow> JUndefined)
      | _ \<Rightarrow> JUndefined)"

text \<open>The two tickets of the example scenario; the fields the scenario leaves open are empty.\<close>

definition example_ticket_1 :: ZendeskTicket where
  "example_ticket_1 =
     \<lparr> tk_id = 1, tk_subject = ''App crashes on login'', tk_description = '''',
       tk_status = ''open'', tk_priority = '''', tk_created_at = '''', tk_updated_at = '''',
       tk_tags = [''bug'', ''mobile''], tk_custom_fields = None, tk_via = None \<rparr>"

definition example_ticket_2 :: ZendeskTicket where
  "example_ticket_2 =
     \<lparr> tk_id = 2, tk_subject = ''Please add dark mode'', tk_description = '''',
       tk_status = ''open'', tk_priority = '''', tk_created_at = '''', tk_updated_at = '''',
       tk_tags = [''enhancement''], tk_custom_fields = None, tk_via = None \<rparr>"

text \<open>A ticket that reports a problem in its subject and carries no tag.\<close>

definition example_ticket_issue :: ZendeskTicket where
  "example_ticket_issue =
     \<lparr> tk_id = 3, tk_subject = ''Login issue'', tk_description = '''',
       tk_status = ''open'', tk_priority = '''', tk_created_at = '''', tk_updated_at = '''',
       tk_tags = [], tk_custom_fields = None, tk_via = None \<rparr>"

text \<open>A ticket whose only tag marks it as a feature, in mixed case.\<close>

definition example_ticket_feature :: ZendeskTicket where
  "example_ticket_feature =
     \<lparr> tk_id = 4, tk_subject = ''Export to CSV'', tk_description = '''',
       tk_status = ''new'', tk_priority = '''', tk_created_at = '''', tk_updated_at = '''',
       tk_tags = [''New-Feature''], tk_custom_fields = None, tk_via = None \<rparr>"

text \<open>
  A host on UTC and a host on Central European time, both at 1 April 2024, 23:30 UTC;
  a client; a remote API that knows ticket 1 only (any other ticket is answered with
  status 404), finds the two tickets of the example scenario for every ticket search
  and no article; the same remote API with priorities on the two tickets; and the
  arguments of a call.
\<close>

definition example_host_utc :: host where
  "example_host_utc = \<lparr> now = 1712014200000, LocalTZA = utc_zone, tickets_settle_first = True \<rparr>"

definition example_host_cet :: host where
  "example_host_cet = \<lparr> now = 1712014200000, LocalTZA = cet_zone_2024, tickets_settle_first = True \<rparr>"

definition example_client :: ZendeskClient where
  "example_client = \<lparr> baseUrl = ''https://example.zendesk.com/api/v2'', authHeader = ''Basic abc'' \<rparr>"

definition example_remote :: remote_api where
  "example_remote =
     \<lparr> fetch_ticket_search = (\<lambda>req. Inr \<lparr> rs_status = 200, rs_text = [],
          rs_json = Inr \<lparr> sr_results = [example_ticket_1, example_ticket_2], sr_count = 2,
                            sr_next_page = None, sr_previous_page = None \<rparr> \<rparr>),
       fetch_ticket = (\<lambda>req.
          if rq_url req = ''https://example.zendesk.com/api/v2/tickets/1.json''
          then Inr \<lparr> rs_status = 200, rs_text = [], rs_json = Inr example_ticket_1 \<rparr>
          else Inr \<lparr> rs_status = 404, rs_text = ''RecordNotFound'',
                     rs_json = Inl (ErrorObj ''not read'') \<rparr>),
       fetch_article_search = (\<lambda>req. Inr \<lparr> rs_status = 200, rs_text = [],
          rs_json = Inr \<lparr> sr_results = [], sr_count = 0,
                            sr_next_page = None, sr_previous_page = None \<rparr> \<rparr>),
       fetch_article = (\<lambda>req. Inl (ErrorObj ''network down'')),
       fetch_comments = (\<lambda>req. Inr \<lparr> rs_status = 200, rs_text = [], rs_json = Inr [] \<rparr>) \<rparr>"

definition example_remote_priorities :: remote_api where
  "example_remote_priorities =
     example_remote \<lparr> fetch_ticket_search := (\<lambda>req. Inr \<lparr> rs_status = 200, rs_text = [],
        rs_json = Inr \<lparr> sr_results = [example_ticket_1\<lparr>tk_priority := ''high''\<rparr>,
                                        example_ticket_2\<lparr>tk_priority := ''low''\<rparr>],
                          sr_count = 2, sr_next_page = None, sr_previous_page = None \<rparr> \<rparr>) \<rparr>"

definition example_args :: tool_arguments where
  "example_args =
     \<lparr> a_query = ''login'', a_page = None, a_per_page = Some 1, a_ticket_id = 1,
       a_include_comments = Some False, a_article_id = 1, a_feature_name = ''dark mode'',
       a_include_solved = Some False, a_days_back = Some 30, a_tag = ''mobile'' \<rparr>"

section \<open>Properties of the classification\<close>

lemma set_bug_reports:
  "set (bug_reports (categorized ts)) = {t \<in> set ts. is_bug_report t}"
  by (simp add: categorized_def)

lemma set_feature_requests:
  "set (feature_requests (categorized ts)) = {t \<in> set ts. is_feature_request t}"
  by (simp add: categorized_def)

lemma set_support_questions:
  "set (support_questions (categorized ts)) = {t \<in> set ts. is_support_question t}"
  by (simp add: categorized_def)

lemma some_bucket: "is_bug_report t \<or> is_feature_request t \<or> is_support_question t"
  unfolding is_bug_report_def is_feature_request_def is_support_question_def list_ex_iff
  by blast

lemma length_three_filters:
  "(\<And>x. P x \<or> Q x \<or> R x) \<Longrightarrow>
     length xs \<le> length (filter P xs) + length (filter Q xs) + length (filter R xs)"
  by (induction xs) auto

text \<open>
  Claim C1, as amended. Every ticket of the list returned by the ticket search lands in
  at least one of the three buckets, and the buckets hold nothing else: their union is
  the set of returned tickets. The buckets are three independent filters with no
  precedence between them, so a ticket may land in several of them: the three bucket
  sizes add up to at least the number of returned tickets, not to exactly that number.
\<close>

theorem classification_total_not_exclusive:
  "set (bug_reports (categorized ts)) \<union> set (feature_requests (categorized ts)) \<union>
     set (support_questions (categorized ts)) = set ts \<and>
   length ts \<le> length (bug_reports (categorized ts)) + length (feature_requests (categorized ts)) +
     length (support_questions (categorized ts))"
proof
  show "set (bug_reports (categorized ts)) \<union> set (feature_requests (categorized ts)) \<union>
     set (support_questions (categorized ts)) = set ts"
    unfolding set_bug_reports set_feature_requests set_support_questions
    using some_bucket by blast
  show "length ts \<le> length (bug_reports (categorized ts)) + length (feature_requests (categorized ts)) +
     length (support_questions (categorized ts))"
    using length_three_filters [of is_bug_report is_feature_request is_support_question ts] some_bucket
    by (simp add: categorized_def)
qed

lemma example_issue_is_bug: "is_bug_report example_ticket_issue"
  by code_simp

lemma example_issue_is_support: "is_support_question example_ticket_issue"
  by code_simp

text \<open>
  Claim C1 as stated fails: the ticket with subject \<open>Login issue\<close> and no tag is a bug
  report by its subject and a support question by its tags, so it is in two buckets.
\<close>

theorem classification_overlap_counterexample:
  "example_ticket_issue \<in> set (bug_reports (categorized [example_ticket_issue])) \<and>
   example_ticket_issue \<in> set (support_questions (categorized [example_ticket_issue]))"
  by (simp add: categorized_def example_issue_is_bug example_issue_is_support)

lemma lower_subject_1: "toLowerCase ''App crashes on login'' = ''app crashes on login''"
  by code_simp

lemma lower_subject_2: "toLowerCase ''Please add dark mode'' = ''please add dark mode''"
  by code_simp

lemma lower_tags:
  "toLowerCase ''bug'' = ''bug''"
  "toLowerCase ''mobile'' = ''mobile''"
  "toLowerCase ''enhancement'' = ''enhancement''"
  "toLowerCase ''New-Feature'' = ''new-feature''"
  by code_simp+

text \<open>
  Claim C2, as amended. Two tickets with the subjects and tags of the example scenario
  (whatever their other fields) are classified as \<open>bug_reports = [ticket 1]\<close>,
  \<open>feature_requests = [ticket 2]\<close> and \<open>support_questions = [ticket 2]\<close>: the only tag
  of ticket 2, \<open>enhancement\<close>, contains neither \<open>bug\<close> nor \<open>feature\<close>.
\<close>

theorem example_scenario_buckets:
  assumes "tk_subject t1 = ''App crashes on login''" "tk_tags t1 = [''bug'', ''mobile'']"
      and "tk_subject t2 = ''Please add dark mode''" "tk_tags t2 = [''enhancement'']"
  shows "categorized [t1, t2] =
     \<lparr> bug_reports = [t1], feature_requests = [t2], support_questions = [t2] \<rparr>"
  using assms
  by (simp add: categorized_def is_bug_report_def is_feature_request_def is_support_question_def
      lower_subject_1 lower_subject_2 lower_tags)

theorem example_scenario_buckets_witness:
  "categorized [example_ticket_1, example_ticket_2] =
     \<lparr> bug_reports = [example_ticket_1], feature_requests = [example_ticket_2],
       support_questions = [example_ticket_2] \<rparr>"
  using example_scenario_buckets [of example_ticket_1 example_ticket_2]
  by (simp add: example_ticket_1_def example_ticket_2_def)

text \<open>
  Claim C2 as stated fails: on the two tickets of the scenario the bucket
  \<open>support_questions\<close> is not empty.
\<close>

theorem example_scenario_counterexample:
  "support_questions (categorized [example_ticket_1, example_ticket_2]) \<noteq> []"
  by code_simp

text \<open>
  Claim C9. Every ticket of the list returned by the ticket search is in at least one
  bucket. A ticket none of whose tags contains \<open>bug\<close> or \<open>feature\<close> (whatever the
  case of the letters) is in \<open>support_questions\<close>; a ticket with a tag that contains
  \<open>bug\<close> is in \<open>bug_reports\<close>; a ticket with a tag that contains \<open>feature\<close> is in
  \<open>feature_requests\<close>.
\<close>

theorem no_ticket_dropped:
  assumes "t \<in> set ts"
  shows "(t \<in> set (bug_reports (categorized ts)) \<or>
          t \<in> set (feature_requests (categorized ts)) \<or>
          t \<in> set (support_questions (categorized ts))) \<and>
         ((\<forall>tag \<in> set (tk_tags t). \<not> str_includes (toLowerCase tag) ''bug'' \<and>
                                     \<not> str_includes (toLowerCase tag) ''feature'') \<longrightarrow>
            t \<in> set (support_questions (categorized ts))) \<and>
         ((\<exists>tag \<in> set (tk_tags t). str_includes (toLowerCase tag) ''bug'') \<longrightarrow>
            t \<in> set (bug_reports (categorized ts))) \<and>
         ((\<exists>tag \<in> set (tk_tags t). str_includes (toLowerCase tag) ''feature'') \<longrightarrow>
            t \<in> set (feature_requests (categorized ts)))"
proof (intro conjI impI)
  show "t \<in> set (bug_reports (categorized ts)) \<or>
        t \<in> set (feature_requests (categorized ts)) \<or>
        t \<in> set (support_questions (categorized ts))"
    using assms some_bucket [of t]
    by (simp add: set_bug_reports set_feature_requests set_support_questions)
next
  assume "\<forall>tag \<in> set (tk_tags t). \<not> str_includes (toLowerCase tag) ''bug'' \<and>
                                   \<not> str_includes (toLowerCase tag) ''feature''"
  then have "is_support_question t"
    by (simp add: is_support_question_def list_ex_iff)
  with assms show "t \<in> set (support_questions (categorized ts))"
    by (simp add: set_support_questions)
next
  assume "\<exists>tag \<in> set (tk_tags t). str_includes (toLowerCase tag) ''bug''"
  then have "is_bug_report t"
    by (simp add: is_bug_report_def list_ex_iff)
  with assms show "t \<in> set (bug_reports (categorized ts))"
    by (simp add: set_bug_reports)
next
  assume "\<exists>tag \<in> set (tk_tags t). str_includes (toLowerCase tag) ''feature''"
  then have "is_feature_request t"
    by (auto simp add: is_feature_request_def list_ex_iff)
  with assms show "t \<in> set (feature_requests (categorized ts))"
    by (simp add: set_feature_requests)
qed

theorem no_ticket_dropped_witness:
  "example_ticket_2 \<in>
     set (support_questions (categorized [example_ticket_1, example_ticket_2, example_ticket_feature])) \<and>
   example_ticket_1 \<in>
     set (bug_reports (categorized [example_ticket_1, example_ticket_2, example_ticket_feature])) \<and>
   example_ticket_feature \<in>
     set (feature_requests (categorized [example_ticket_1, example_ticket_2, example_ticket_feature]))"
proof -
  let ?ts = "[example_ticket_1, example_ticket_2, example_ticket_feature]"
  have tags: "tk_tags example_ticket_1 = [''bug'', ''mobile'']"
    "tk_tags example_ticket_2 = [''enhancement'']"
    "tk_tags example_ticket_feature = [''New-Feature'']"
    by (simp_all add: example_ticket_1_def example_ticket_2_def example_ticket_feature_def)
  have "example_ticket_2 \<in> set (support_questions (categorized ?ts))"
    using no_ticket_dropped [of example_ticket_2 ?ts] by (simp add: tags lower_tags)
  moreover have "example_ticket_1 \<in> set (bug_reports (categorized ?ts))"
    using no_ticket_dropped [of example_ticket_1 ?ts] by (simp add: tags lower_tags)
  moreover have "example_ticket_feature \<in> set (feature_requests (categorized ?ts))"
    using no_ticket_dropped [of example_ticket_feature ?ts] by (simp add: tags lower_tags)
  ultimately show ?thesis by simp
qed

section \<open>Properties of the client\<close>

lemma str_includes_prefix: "str_includes (sub @ ys) sub"
proof (cases "sub @ ys")
  case Nil
  then show ?thesis by simp
next
  case (Cons a list)
  have "prefix sub (sub @ ys)" by simp
  with Cons show ?thesis by simp
qed

lemma str_includes_append: "str_includes (xs @ sub @ ys) sub"
  by (induction xs) (auto simp: str_includes_prefix)

lemma str_includes_suffix: "str_includes (xs @ sub) sub"
  using str_includes_append [of xs sub "[]"] by simp

text \<open>
  Claim C4. When the remote API answers a request of the client with a status outside
  200 to 299, \<open>request\<close> throws an error whose message is
  \<open>Zendesk API error (<status>): <body>\<close>, so the message contains the status code in
  decimal digits and the text of the response body as it is. Exactly one request has
  been sent: there is no second attempt.
\<close>

theorem request_non_success:
  assumes "fetch (request_of client endpoint params) = Inr response"
      and "\<not> ok response"
  shows "\<exists>message.
           request fetch client endpoint params sent =
             (Inl (ErrorObj message), sent @ [request_of client endpoint params]) \<and>
           message = ''Zendesk API error ('' @ toString_num (rs_status response) @ ''): '' @
                       rs_text response \<and>
           str_includes message (toString_num (rs_status response)) \<and>
           str_includes message (rs_text response)"
proof -
  let ?m = "''Zendesk API error ('' @ toString_num (rs_status response) @ ''): '' @ rs_text response"
  have "request fetch client endpoint params sent =
          (Inl (ErrorObj ?m), sent @ [request_of client endpoint params])"
    using assms by (simp add: request_def Let_def)
  moreover have "str_includes ?m (toString_num (rs_status response))"
    by (rule str_includes_append)
  moreover have "str_includes ?m (rs_text response)"
    using str_includes_suffix [of "''Zendesk API error ('' @ toString_num (rs_status response) @ ''): ''"
        "rs_text response"]
    by simp
  ultimately show ?thesis by blast
qed

lemma toString_404: "toString_num 404 = ''404''"
  by code_simp

theorem request_non_success_witness:
  "request (fetch_ticket example_remote) example_client ''/tickets/7.json'' None [] =
     (Inl (ErrorObj ''Zendesk API error (404): RecordNotFound''),
      [request_of example_client ''/tickets/7.json'' None])"
proof -
  have f: "fetch_ticket example_remote (request_of example_client ''/tickets/7.json'' None) =
             Inr \<lparr> rs_status = 404, rs_text = ''RecordNotFound'', rs_json = Inl (ErrorObj ''not read'') \<rparr>"
    by (simp add: example_remote_def example_client_def request_of_def)
  have n: "\<not> ok \<lparr> rs_status = 404, rs_text = ''RecordNotFound'',
                  rs_json = (Inl (ErrorObj ''not read'') :: thrown + ZendeskTicket) \<rparr>"
    by (simp add: ok_def)
  show ?thesis
    using request_non_success [of "fetch_ticket example_remote" example_client "''/tickets/7.json''"
        None "\<lparr> rs_status = 404, rs_text = ''RecordNotFound'', rs_json = Inl (ErrorObj ''not read'') \<rparr>" "[]"]
      f n
    by (auto simp: toString_404)
qed

section \<open>Properties of the dispatcher\<close>

lemma call_tool_Inl:
  "run_tool h remote client name args sent = (Inl error, sent') \<Longrightarrow>
     call_tool h remote client name args sent = (error_response error, sent')"
  by (simp add: call_tool_def)

lemma run_tool_unknown:
  "name \<notin> set TOOLS \<Longrightarrow>
     run_tool h remote client name args sent = (Inl (ErrorObj (''Unknown tool: '' @ name)), sent)"
  by (auto simp: TOOLS_def run_tool_def)

text \<open>
  Claim C5. The dispatcher always returns a response envelope. For a name that is not in
  the catalog, the envelope holds the single text \<open>Error: Unknown tool: <name>\<close> and its
  error flag is true, and no request has been sent. Whenever the handler of the tool
  throws an error, the envelope holds the single text \<open>Error: <message>\<close> with the
  message of the error, and its error flag is true.
\<close>

theorem dispatcher_error_envelope:
  "(name \<notin> set TOOLS \<longrightarrow>
      call_tool h remote client name args sent =
        (\<lparr> content = [\<lparr> c_type = ''text'', c_text = Plain (''Error: Unknown tool: '' @ name) \<rparr>],
           isError = Some True \<rparr>, sent)) \<and>
   (\<forall>error sent'. run_tool h remote client name args sent = (Inl error, sent') \<longrightarrow>
      call_tool h remote client name args sent =
        (\<lparr> content = [\<lparr> c_type = ''text'', c_text = Plain (''Error: '' @ errorMessage error) \<rparr>],
           isError = Some True \<rparr>, sent'))"
proof (intro conjI impI allI)
  assume "name \<notin> set TOOLS"
  then show "call_tool h remote client name args sent =
        (\<lparr> content = [\<lparr> c_type = ''text'', c_text = Plain (''Error: Unknown tool: '' @ name) \<rparr>],
           isError = Some True \<rparr>, sent)"
    by (simp add: run_tool_unknown call_tool_Inl error_response_def errorMessage_def)
next
  fix error sent'
  assume "run_tool h remote client name args sent = (Inl error, sent')"
  then show "call_tool h remote client name args sent =
        (\<lparr> content = [\<lparr> c_type = ''text'', c_text = Plain (''Error: '' @ errorMessage error) \<rparr>],
           isError = Some True \<rparr>, sent')"
    by (simp add: call_tool_Inl error_response_def)
qed

lemma example_get_ticket_7:
  "run_tool example_host_utc example_remote example_client ''get_ticket''
     (example_args\<lparr>a_ticket_id := 7\<rparr>) [] =
   (Inl (ErrorObj ''Zendesk API error (404): RecordNotFound''),
    [request_of example_client ''/tickets/7.json'' None])"
  by code_simp

theorem dispatcher_error_envelope_witness:
  "call_tool example_host_utc example_remote example_client ''delete_ticket'' example_args [] =
     (\<lparr> content = [\<lparr> c_type = ''text'', c_text = Plain ''Error: Unknown tool: delete_ticket'' \<rparr>],
        isError = Some True \<rparr>, []) \<and>
   call_tool example_host_utc example_remote example_client ''get_ticket''
       (example_args\<lparr>a_ticket_id := 7\<rparr>) [] =
     (\<lparr> content = [\<lparr> c_type = ''text'',
                       c_text = Plain ''Error: Zendesk API error (404): RecordNotFound'' \<rparr>],
        isError = Some True \<rparr>, [request_of example_client ''/tickets/7.json'' None])"
proof
  show "call_tool example_host_utc example_remote example_client ''delete_ticket'' example_args [] =
     (\<lparr> content = [\<lparr> c_type = ''text'', c_text = Plain ''Error: Unknown tool: delete_ticket'' \<rparr>],
        isError = Some True \<rparr>, [])"
    using dispatcher_error_envelope [of "''delete_ticket''" example_host_utc example_remote
        example_client example_args "[]"]
    by (simp add: TOOLS_def)
  show "call_tool example_host_utc example_remote example_client ''get_ticket''
       (example_args\<lparr>a_ticket_id := 7\<rparr>) [] =
     (\<lparr> content = [\<lparr> c_type = ''text'',
                       c_text = Plain ''Error: Zendesk API error (404): RecordNotFound'' \<rparr>],
        isError = Some True \<rparr>, [request_of example_client ''/tickets/7.json'' None])"
    using dispatcher_error_envelope [of "''get_ticket''" example_host_utc example_remote
        example_client "example_args\<lparr>a_ticket_id := 7\<rparr>" "[]"] example_get_ticket_7
    by (simp add: errorMessage_def)
qed

lemma getTicket_sent:
  "snd (getTicket remote client ticketId sent) =
     sent @ [request_of client (''/tickets/'' @ toString_num ticketId @ ''.json'') None]"
  by (simp add: getTicket_def request_def Let_def split: sum.splits)

lemma run_get_ticket_no_comments:
  assumes "a_include_comments args = Some False"
  shows "run_tool h remote client ''get_ticket'' args sent =
     (case getTicket remote client (a_ticket_id args) sent of
        (Inl e, sent') \<Rightarrow> (Inl e, sent')
      | (Inr ticket, sent') \<Rightarrow>
          (Inr (json_response (JObj [(''ticket'', full_ticket_entry ticket), (''comments'', JArr [])])),
           sent'))"
  using assms
  by (simp add: run_tool_def handle_get_ticket_def dflt_def Let_def split: prod.splits sum.splits)

text \<open>
  Claim C6. A call of \<open>get_ticket\<close> with \<open>include_comments = false\<close> sends exactly one
  request, the fetch of the ticket; the request for the comments of the ticket is not among
  the requests sent, and the response does not depend on what the remote API would
  answer to it. When the fetch of the ticket succeeds, the payload is the ticket with an
  empty list of comments.
\<close>

theorem get_ticket_without_comments:
  assumes "a_include_comments args = Some False"
  shows "snd (call_tool h remote client ''get_ticket'' args sent) =
           sent @ [request_of client (''/tickets/'' @ toString_num (a_ticket_id args) @ ''.json'') None] \<and>
         request_of client (''/tickets/'' @ toString_num (a_ticket_id args) @ ''/comments.json'') None
           \<notin> set (drop (length sent) (snd (call_tool h remote client ''get_ticket'' args sent))) \<and>
         (\<forall>f. call_tool h (remote\<lparr>fetch_comments := f\<rparr>) client ''get_ticket'' args sent =
              call_tool h remote client ''get_ticket'' args sent) \<and>
         (\<forall>ticket. fst (getTicket remote client (a_ticket_id args) sent) = Inr ticket \<longrightarrow>
              fst (call_tool h remote client ''get_ticket'' args sent) =
                json_response (JObj [(''ticket'', full_ticket_entry ticket), (''comments'', JArr [])]) \<and>
              items (property ''comments''
                (payload_of (fst (call_tool h remote client ''get_ticket'' args sent)))) = [])"
proof -
  let ?g = "getTicket remote client (a_ticket_id args) sent"
  have run: "run_tool h remote client ''get_ticket'' args sent =
     (case ?g of
        (Inl e, sent') \<Rightarrow> (Inl e, sent')
      | (Inr ticket, sent') \<Rightarrow>
          (Inr (json_response (JObj [(''ticket'', full_ticket_entry ticket), (''comments'', JArr [])])),
           sent'))"
    by (rule run_get_ticket_no_comments [OF assms])
  have sent: "snd (call_tool h remote client ''get_ticket'' args sent) = snd ?g"
    by (simp add: call_tool_def run split: prod.splits sum.splits)
  have 1: "snd (call_tool h remote client ''get_ticket'' args sent) =
           sent @ [request_of client (''/tickets/'' @ toString_num (a_ticket_id args) @ ''.json'') None]"
    by (simp add: sent getTicket_sent)
  have 2: "request_of client (''/tickets/'' @ toString_num (a_ticket_id args) @ ''/comments.json'') None
           \<notin> set (drop (length sent) (snd (call_tool h remote client ''get_ticket'' args sent)))"
    by (simp add: 1 request_of_def)
  have 3: "\<forall>f. call_tool h (remote\<lparr>fetch_comments := f\<rparr>) client ''get_ticket'' args sent =
              call_tool h remote client ''get_ticket'' args sent"
    by (simp add: call_tool_def run run_get_ticket_no_comments [OF assms] getTicket_def)
  have 4: "\<forall>ticket. fst ?g = Inr ticket \<longrightarrow>
              fst (call_tool h remote client ''get_ticket'' args sent) =
                json_response (JObj [(''ticket'', full_ticket_entry ticket), (''comments'', JArr [])]) \<and>
              items (property ''comments''
                (payload_of (fst (call_tool h remote client ''get_ticket'' args sent)))) = []"
    by (auto simp: call_tool_def run json_response_def payload_of_def property_def items_def
        split: prod.splits sum.splits)
  from 1 2 3 4 show ?thesis by blast
qed

theorem get_ticket_without_comments_witness:
  "call_tool example_host_utc example_remote example_client ''get_ticket'' example_args [] =
     (json_response (JObj [(''ticket'', full_ticket_entry example_ticket_1), (''comments'', JArr [])]),
      [request_of example_client ''/tickets/1.json'' None])"
proof -
  have a: "a_include_comments example_args = Some False" "a_ticket_id example_args = 1"
    by (simp_all add: example_args_def)
  have n: "toString_num 1 = ''1''" by code_simp
  have g: "getTicket example_remote example_client 1 [] =
      (Inr example_ticket_1, [request_of example_client ''/tickets/1.json'' None])"
    by (simp add: getTicket_def request_def request_of_def example_remote_def example_client_def
        ok_def n)
  show ?thesis
    using get_ticket_without_comments [OF a(1), of example_host_utc example_remote example_client "[]"]
    by (simp add: a(2) g n prod_eq_iff)
qed

text \<open>
  Claim C8, as amended. When the remote API answers the ticket search of a
  \<open>search_tickets\<close> call with success, the number of ticket records in the reshaped
  output equals the number of results in that answer: \<open>per_page\<close> is sent to the API and
  the output is never cut to it. So the number is the minimum of \<open>per_page\<close> and the
  number of returned results whenever the API returns at most \<open>per_page\<close> results.
\<close>

theorem search_tickets_count:
  assumes "fetch_ticket_search remote
             (request_of client ''/search.json''
                (Some [(''query'', ''type:ticket '' @ a_query args),
                       (''per_page'', toString_num (dflt 50 (a_per_page args))),
                       (''page'', toString_num (dflt 1 (a_page args)))])) = Inr response"
      and "ok response" and "rs_json response = Inr results"
  shows "isError (fst (call_tool h remote client ''search_tickets'' args sent)) = None \<and>
         length (items (property ''tickets''
           (payload_of (fst (call_tool h remote client ''search_tickets'' args sent))))) =
           length (sr_results results) \<and>
         (int (length (sr_results results)) \<le> dflt 50 (a_per_page args) \<longrightarrow>
            int (length (items (property ''tickets''
              (payload_of (fst (call_tool h remote client ''search_tickets'' args sent)))))) =
              min (dflt 50 (a_per_page args)) (int (length (sr_results results))))"
proof -
  have "searchTickets remote client (a_query args) (Some (dflt 1 (a_page args)))
          (Some (dflt 50 (a_per_page args))) sent =
        (Inr results, sent @ [request_of client ''/search.json''
                (Some [(''query'', ''type:ticket '' @ a_query args),
                       (''per_page'', toString_num (dflt 50 (a_per_page args))),
                       (''page'', toString_num (dflt 1 (a_page args)))])])"
    using assms by (simp add: searchTickets_def request_def Let_def dflt_def)
  then have "fst (call_tool h remote client ''search_tickets'' args sent) =
      json_response
        (JObj [(''total_count'', JNum (of_int (sr_count results))),
               (''page'', JNum (of_int (dflt 1 (a_page args)))),
               (''per_page'', JNum (of_int (dflt 50 (a_per_page args)))),
               (''has_more'', JBool (truthy (sr_next_page results))),
               (''tickets'', JArr (map search_ticket_entry (sr_results results)))])"
    by (simp add: call_tool_def run_tool_def handle_search_tickets_def Let_def)
  then show ?thesis
    by (simp add: json_response_def payload_of_def property_def items_def)
qed

theorem search_tickets_count_witness:
  "isError (fst (call_tool example_host_utc example_remote example_client ''search_tickets''
      (example_args\<lparr>a_per_page := Some 5\<rparr>) [])) = None \<and>
   length (items (property ''tickets'' (payload_of (fst
      (call_tool example_host_utc example_remote example_client ''search_tickets''
         (example_args\<lparr>a_per_page := Some 5\<rparr>) []))))) = 2 \<and>
   min (5::int) 2 = 2"
proof -
  have r: "fetch_ticket_search example_remote
     (request_of example_client ''/search.json''
        (Some [(''query'', ''type:ticket '' @ a_query (example_args\<lparr>a_per_page := Some 5\<rparr>)),
               (''per_page'', toString_num (dflt 50 (a_per_page (example_args\<lparr>a_per_page := Some 5\<rparr>)))),
               (''page'', toString_num (dflt 1 (a_page (example_args\<lparr>a_per_page := Some 5\<rparr>))))])) =
     Inr \<lparr> rs_status = 200, rs_text = [],
         rs_json = Inr \<lparr> sr_results = [example_ticket_1, example_ticket_2], sr_count = 2,
                           sr_next_page = None, sr_previous_page = None \<rparr> \<rparr>"
    by (simp add: example_remote_def)
  have k: "ok \<lparr> rs_status = 200, rs_text = [],
         rs_json = (Inr \<lparr> sr_results = [example_ticket_1, example_ticket_2], sr_count = 2,
                           sr_next_page = None, sr_previous_page = None \<rparr>
                    :: thrown + ZendeskTicket SearchResult) \<rparr>"
    by (simp add: ok_def)
  show ?thesis
    using search_tickets_count [OF r k, of "\<lparr> sr_results = [example_ticket_1, example_ticket_2], sr_count = 2,
                           sr_next_page = None, sr_previous_page = None \<rparr>" example_host_utc "[]"]
    by (simp add: dflt_def)
qed

text \<open>
  Claim C8 as stated fails: with \<open>per_page = 1\<close> and a remote API that returns two
  results for the page, the output holds two ticket records, not one.
\<close>

theorem search_tickets_count_counterexample:
  "dflt 50 (a_per_page example_args) = 1 \<and>
   fetch_ticket_search example_remote
     (request_of example_client ''/search.json''
        (Some [(''query'', ''type:ticket login''), (''per_page'', ''1''), (''page'', ''1'')])) =
     Inr \<lparr> rs_status = 200, rs_text = [],
           rs_json = Inr \<lparr> sr_results = [example_ticket_1, example_ticket_2], sr_count = 2,
                             sr_next_page = None, sr_previous_page = None \<rparr> \<rparr> \<and>
   length (items (property ''tickets'' (payload_of (fst
      (call_tool example_host_utc example_remote example_client ''search_tickets''
         example_args []))))) = 2 \<and>
   int (length (items (property ''tickets'' (payload_of (fst
      (call_tool example_host_utc example_remote example_client ''search_tickets''
         example_args [])))))) \<noteq>
     min (dflt 50 (a_per_page example_args)) (int (length [example_ticket_1, example_ticket_2]))"
proof -
  have n: "length (items (property ''tickets'' (payload_of (fst
      (call_tool example_host_utc example_remote example_client ''search_tickets''
         example_args []))))) = 2"
    by code_simp
  have p: "dflt 50 (a_per_page example_args) = 1"
    by (simp add: example_args_def dflt_def)
  have r: "fetch_ticket_search example_remote
     (request_of example_client ''/search.json''
        (Some [(''query'', ''type:ticket login''), (''per_page'', ''1''), (''page'', ''1'')])) =
     Inr \<lparr> rs_status = 200, rs_text = [],
           rs_json = Inr \<lparr> sr_results = [example_ticket_1, example_ticket_2], sr_count = 2,
                             sr_next_page = None, sr_previous_page = None \<rparr> \<rparr>"
    by (simp add: example_remote_def)
  show ?thesis
    by (simp add: n p r)
qed

lemma feedback_payload_buckets:
  "items (property ''bug_reports'' (feedback_payload f d ts as)) =
     map priority_ticket_entry (bug_reports (categorized (sr_results ts)))"
  "items (property ''feature_requests'' (feedback_payload f d ts as)) =
     map priority_ticket_entry (feature_requests (categorized (sr_results ts)))"
  "items (property ''support_questions'' (feedback_payload f d ts as)) =
     map support_question_entry (support_questions (categorized (sr_results ts)))"
  by (simp_all add: feedback_payload_def property_def items_def Let_def)

lemma isError_error_response: "isError (error_response e) \<noteq> None"
  by (simp add: error_response_def)

lemma fst_call_tool:
  "fst (call_tool h remote client name args sent) =
     (case fst (run_tool h remote client name args sent) of
        Inl e \<Rightarrow> error_response e | Inr r \<Rightarrow> r)"
proof (cases "run_tool h remote client name args sent")
  case (Pair r sent')
  then show ?thesis
    by (cases r) (simp_all add: call_tool_def)
qed

lemma Promise_all_Inr:
  "Promise_all h p q = Inr (a, b) \<Longrightarrow> p = Inr a \<and> q = Inr b"
  by (auto simp: Promise_all_def split: sum.splits)

lemma run_tool_feedback:
  "run_tool h remote client ''search_feature_feedback'' args sent =
     handle_search_feature_feedback h remote client args sent"
  by (simp add: run_tool_def)

lemma handle_feedback_no_query:
  assumes "feedback_ticket_query h (a_feature_name args) (dflt True (a_include_solved args))
             (dflt 90 (a_days_back args)) = Inl e"
  shows "handle_search_feature_feedback h remote client args sent = (Inl e, sent)"
  using assms by (simp add: handle_search_feature_feedback_def Let_def)

lemma handle_feedback_query:
  assumes "feedback_ticket_query h (a_feature_name args) (dflt True (a_include_solved args))
             (dflt 90 (a_days_back args)) = Inr ticketQuery"
      and "searchTickets remote client ticketQuery (Some 1) (Some 100) sent = (r1, s1)"
      and "searchArticles remote client (a_feature_name args) (Some 1) (Some 50) s1 = (r2, s2)"
  shows "handle_search_feature_feedback h remote client args sent =
     (case Promise_all h r1 r2 of
        Inl e \<Rightarrow> (Inl e, s2)
      | Inr (tickets, articles) \<Rightarrow>
          (Inr (json_response
             (feedback_payload (a_feature_name args) (dflt 90 (a_days_back args)) tickets articles)),
           s2))"
  using assms by (simp add: handle_search_feature_feedback_def Let_def)

lemma feedback_success_payload:
  assumes "isError (fst (call_tool h remote client ''search_feature_feedback'' args sent)) = None"
  shows "\<exists>ticketQuery tickets articles.
           feedback_ticket_query h (a_feature_name args) (dflt True (a_include_solved args))
             (dflt 90 (a_days_back args)) = Inr ticketQuery \<and>
           fst (searchTickets remote client ticketQuery (Some 1) (Some 100) sent) = Inr tickets \<and>
           payload_of (fst (call_tool h remote client ''search_feature_feedback'' args sent)) =
             feedback_payload (a_feature_name args) (dflt 90 (a_days_back args)) tickets articles"
proof -
  define call where "call = fst (call_tool h remote client ''search_feature_feedback'' args sent)"
  define hnd where "hnd = fst (handle_search_feature_feedback h remote client args sent)"
  define q where "q = feedback_ticket_query h (a_feature_name args)
     (dflt True (a_include_solved args)) (dflt 90 (a_days_back args))"
  have ok: "isError call = None"
    using assms by (simp only: call_def)
  have c: "call = (case hnd of Inl e \<Rightarrow> error_response e | Inr r \<Rightarrow> r)"
    unfolding call_def hnd_def by (simp only: fst_call_tool run_tool_feedback)
  have no_error: "hnd = Inl e \<Longrightarrow> P" for e P
  proof -
    assume "hnd = Inl e"
    then have "call = error_response e" by (simp only: c sum.case)
    with ok have False by (simp add: error_response_def)
    then show P by (rule FalseE)
  qed
  show ?thesis
  proof (cases q)
    case (Inl e)
    then have "hnd = Inl e"
      unfolding hnd_def q_def by (simp only: handle_feedback_no_query fst_conv)
    then show ?thesis by (rule no_error)
  next
    case (Inr ticketQuery)
    then have tq: "feedback_ticket_query h (a_feature_name args)
        (dflt True (a_include_solved args)) (dflt 90 (a_days_back args)) = Inr ticketQuery"
      by (simp only: q_def)
    obtain r1 s1 where t: "searchTickets remote client ticketQuery (Some 1) (Some 100) sent = (r1, s1)"
      by (cases "searchTickets remote client ticketQuery (Some 1) (Some 100) sent")
    obtain r2 s2 where a:
      "searchArticles remote client (a_feature_name args) (Some 1) (Some 50) s1 = (r2, s2)"
      by (cases "searchArticles remote client (a_feature_name args) (Some 1) (Some 50) s1")
    have h: "hnd = fst (case Promise_all h r1 r2 of
        Inl e \<Rightarrow> (Inl e, s2)
      | Inr (tickets, articles) \<Rightarrow>
          (Inr (json_response
             (feedback_payload (a_feature_name args) (dflt 90 (a_days_back args)) tickets articles)),
           s2))"
      unfolding hnd_def by (simp only: handle_feedback_query [OF tq t a])
    show ?thesis
    proof (cases "Promise_all h r1 r2")
      case (Inl e)
      then have "hnd = Inl e" by (simp only: h sum.case fst_conv)
      then show ?thesis by (rule no_error)
    next
      case pa: (Inr both)
      obtain tickets articles where both: "both = (tickets, articles)"
        by (cases both)
      have pa': "Promise_all h r1 r2 = Inr (tickets, articles)"
        using pa both by (simp only:)
      then have "r1 = Inr tickets \<and> r2 = Inr articles"
        by (rule Promise_all_Inr)
      then have r1: "r1 = Inr tickets"
        by (rule conjunct1)
      have "hnd = Inr (json_response
          (feedback_payload (a_feature_name args) (dflt 90 (a_days_back args)) tickets articles))"
        by (simp only: h pa' sum.case prod.case fst_conv)
      then have "call = json_response
          (feedback_payload (a_feature_name args) (dflt 90 (a_days_back args)) tickets articles)"
        by (simp only: c sum.case)
      then have p: "payload_of call =
          feedback_payload (a_feature_name args) (dflt 90 (a_days_back args)) tickets articles"
        by (simp add: json_response_def payload_of_def)
      have s: "fst (searchTickets remote client ticketQuery (Some 1) (Some 100) sent) = Inr tickets"
        by (simp only: t r1 fst_conv)
      from tq s p [unfolded call_def] show ?thesis
        by (intro exI [of _ ticketQuery] exI [of _ tickets] exI [of _ articles] conjI)
    qed
  qed
qed

text \<open>
  Claim C10. In the output of a successful \<open>search_feature_feedback\<close> call, the records
  of \<open>bug_reports\<close> and of \<open>feature_requests\<close> are, in order, the trimmed records of the
  tickets that the ticket search returned and that fall into the bucket, each with the
  properties \<open>id\<close>, \<open>subject\<close>, \<open>status\<close>, \<open>priority\<close>, \<open>created_at\<close>, \<open>tags\<close>: the
  property \<open>priority\<close> holds the priority of the ticket, a text, so it is printed. The
  records of \<open>support_questions\<close> are the trimmed records of the tickets of that bucket
  with the properties \<open>id\<close>, \<open>subject\<close>, \<open>status\<close>, \<open>created_at\<close>, \<open>tags\<close> only: they
  have no property \<open>priority\<close>.
\<close>

theorem feedback_entries_priority:
  assumes "isError (fst (call_tool h remote client ''search_feature_feedback'' args sent)) = None"
  shows "items (property ''bug_reports'' (payload_of (fst (call_tool h remote client ''search_feature_feedback'' args sent)))) =
           map (\<lambda>t. JObj [(''id'', JNum (of_int (tk_id t))),
                             (''subject'', JStr (tk_subject t)),
                             (''status'', JStr (tk_status t)),
                             (''priority'', JStr (tk_priority t)),
                             (''created_at'', JStr (tk_created_at t)),
                             (''tags'', JArr (map JStr (tk_tags t)))])
             (bug_reports (categorized (feedback_tickets h remote client args sent))) \<and>
         items (property ''feature_requests'' (payload_of (fst (call_tool h remote client ''search_feature_feedback'' args sent)))) =
           map (\<lambda>t. JObj [(''id'', JNum (of_int (tk_id t))),
                             (''subject'', JStr (tk_subject t)),
                             (''status'', JStr (tk_status t)),
                             (''priority'', JStr (tk_priority t)),
                             (''created_at'', JStr (tk_created_at t)),
                             (''tags'', JArr (map JStr (tk_tags t)))])
             (feature_requests (categorized (feedback_tickets h remote client args sent))) \<and>
         items (property ''support_questions'' (payload_of (fst (call_tool h remote client ''search_feature_feedback'' args sent)))) =
           map (\<lambda>t. JObj [(''id'', JNum (of_int (tk_id t))),
                             (''subject'', JStr (tk_subject t)),
                             (''status'', JStr (tk_status t)),
                             (''created_at'', JStr (tk_created_at t)),
                             (''tags'', JArr (map JStr (tk_tags t)))])
             (support_questions (categorized (feedback_tickets h remote client args sent))) \<and>
         (\<forall>entry \<in> set (items (property ''bug_reports'' (payload_of (fst (call_tool h remote client ''search_feature_feedback'' args sent))))) \<union>
                     set (items (property ''feature_requests'' (payload_of (fst (call_tool h remote client ''search_feature_feedback'' args sent))))).
            \<exists>priority. property ''priority'' entry = Some (JStr priority)) \<and>
         (\<forall>entry \<in> set (items (property ''support_questions'' (payload_of (fst (call_tool h remote client ''search_feature_feedback'' args sent))))).
            property ''priority'' entry = None)"
proof -
  obtain ticketQuery tickets articles where
    q: "feedback_ticket_query h (a_feature_name args) (dflt True (a_include_solved args))
             (dflt 90 (a_days_back args)) = Inr ticketQuery" and
    t: "fst (searchTickets remote client ticketQuery (Some 1) (Some 100) sent) = Inr tickets" and
    p: "payload_of (fst (call_tool h remote client ''search_feature_feedback'' args sent)) =
          feedback_payload (a_feature_name args) (dflt 90 (a_days_back args)) tickets articles"
    using feedback_success_payload [OF assms] by blast
  have ft: "feedback_tickets h remote client args sent = sr_results tickets"
    by (simp add: feedback_tickets_def q t)
  have b: "items (property ''bug_reports'' (payload_of (fst (call_tool h remote client ''search_feature_feedback'' args sent)))) =
           map (\<lambda>t. JObj [(''id'', JNum (of_int (tk_id t))),
                             (''subject'', JStr (tk_subject t)),
                             (''status'', JStr (tk_status t)),
                             (''priority'', JStr (tk_priority t)),
                             (''created_at'', JStr (tk_created_at t)),
                             (''tags'', JArr (map JStr (tk_tags t)))])
             (bug_reports (categorized (feedback_tickets h remote client args sent)))"
    unfolding p ft
    by (simp add: feedback_payload_buckets priority_ticket_entry_def js_strings_def)
  have f: "items (property ''feature_requests'' (payload_of (fst (call_tool h remote client ''search_feature_feedback'' args sent)))) =
           map (\<lambda>t. JObj [(''id'', JNum (of_int (tk_id t))),
                             (''subject'', JStr (tk_subject t)),
                             (''status'', JStr (tk_status t)),
                             (''priority'', JStr (tk_priority t)),
                             (''created_at'', JStr (tk_created_at t)),
                             (''tags'', JArr (map JStr (tk_tags t)))])
             (feature_requests (categorized (feedback_tickets h remote client args sent)))"
    unfolding p ft
    by (simp add: feedback_payload_buckets priority_ticket_entry_def js_strings_def)
  have s: "items (property ''support_questions'' (payload_of (fst (call_tool h remote client ''search_feature_feedback'' args sent)))) =
           map (\<lambda>t. JObj [(''id'', JNum (of_int (tk_id t))),
                             (''subject'', JStr (tk_subject t)),
                             (''status'', JStr (tk_status t)),
                             (''created_at'', JStr (tk_created_at t)),
                             (''tags'', JArr (map JStr (tk_tags t)))])
             (support_questions (categorized (feedback_tickets h remote client args sent)))"
    unfolding p ft
    by (simp add: feedback_payload_buckets support_question_entry_def js_strings_def)
  have pr: "\<forall>entry \<in> set (items (property ''bug_reports'' (payload_of (fst (call_tool h remote client ''search_feature_feedback'' args sent))))) \<union>
                     set (items (property ''feature_requests'' (payload_of (fst (call_tool h remote client ''search_feature_feedback'' args sent))))).
            \<exists>priority. property ''priority'' entry = Some (JStr priority)"
    unfolding b f by (auto simp: property_def)
  have su: "\<forall>entry \<in> set (items (property ''support_questions'' (payload_of (fst (call_tool h remote client ''search_feature_feedback'' args sent))))).
            property ''priority'' entry = None"
    unfolding s by (auto simp: property_def)
  from b f s pr su show ?thesis by (intro conjI)
qed

lemma example_priorities_success:
  "isError (fst (call_tool example_host_utc example_remote_priorities example_client
      ''search_feature_feedback'' example_args [])) = None"
  by code_simp

lemma example_priorities_tickets:
  "feedback_tickets example_host_utc example_remote_priorities example_client example_args [] =
     [example_ticket_1\<lparr>tk_priority := ''high''\<rparr>, example_ticket_2\<lparr>tk_priority := ''low''\<rparr>]"
  by code_simp

lemma example_priorities_buckets:
  "categorized [example_ticket_1\<lparr>tk_priority := ''high''\<rparr>,
                example_ticket_2\<lparr>tk_priority := ''low''\<rparr>] =
     \<lparr> bug_reports = [example_ticket_1\<lparr>tk_priority := ''high''\<rparr>],
       feature_requests = [example_ticket_2\<lparr>tk_priority := ''low''\<rparr>],
       support_questions = [example_ticket_2\<lparr>tk_priority := ''low''\<rparr>] \<rparr>"
  by (simp add: categorized_def is_bug_report_def is_feature_request_def is_support_question_def
      example_ticket_1_def example_ticket_2_def lower_subject_1 lower_subject_2 lower_tags)

theorem feedback_entries_priority_witness:
  "items (property ''bug_reports'' (payload_of (fst (call_tool example_host_utc
      example_remote_priorities example_client ''search_feature_feedback'' example_args [])))) =
     [JObj [(''id'', JNum 1), (''subject'', JStr ''App crashes on login''),
            (''status'', JStr ''open''), (''priority'', JStr ''high''),
            (''created_at'', JStr []), (''tags'', JArr [JStr ''bug'', JStr ''mobile''])]] \<and>
   items (property ''feature_requests'' (payload_of (fst (call_tool example_host_utc
      example_remote_priorities example_client ''search_feature_feedback'' example_args [])))) =
     [JObj [(''id'', JNum 2), (''subject'', JStr ''Please add dark mode''),
            (''status'', JStr ''open''), (''priority'', JStr ''low''),
            (''created_at'', JStr []), (''tags'', JArr [JStr ''enhancement''])]] \<and>
   items (property ''support_questions'' (payload_of (fst (call_tool example_host_utc
      example_remote_priorities example_client ''search_feature_feedback'' example_args [])))) =
     [JObj [(''id'', JNum 2), (''subject'', JStr ''Please add dark mode''),
            (''status'', JStr ''open''),
            (''created_at'', JStr []), (''tags'', JArr [JStr ''enhancement''])]]"
proof -
  note w = feedback_entries_priority [OF example_priorities_success,
      unfolded example_priorities_tickets example_priorities_buckets]
  from w show ?thesis
    by (simp add: example_ticket_1_def example_ticket_2_def)
qed

section \<open>Properties of the date threshold\<close>

text \<open>
  Setting the date to the day of the month minus \<open>k\<close> moves the local time back by
  \<open>k\<close> days: the year, month and day of the month of the local time cancel.
\<close>

lemma MonthFromTime_range: "0 \<le> MonthFromTime t \<and> MonthFromTime t \<le> 11"
  by (simp add: MonthFromTime_def Let_def)

lemma ToIntegerOrInfinity_of_int: "ToIntegerOrInfinity (of_int n) = n"
  by (simp add: ToIntegerOrInfinity_def)

lemma days_moved_back_of_int: "days_moved_back date (of_int k) = k"
proof -
  have "ToIntegerOrInfinity (of_int date - of_int k) = date - k"
    using ToIntegerOrInfinity_of_int [of "date - k"] by simp
  then show ?thesis by (simp add: days_moved_back_def)
qed

lemma MakeDay_DateFromTime:
  "MakeDay (YearFromTime t) (MonthFromTime t) (of_int (DateFromTime t) - days) =
     Day t - days_moved_back (DateFromTime t) days"
proof -
  have m: "MonthFromTime t div 12 = 0" "MonthFromTime t mod 12 = MonthFromTime t"
    using MonthFromTime_range [of t] by simp_all
  show ?thesis
    by (simp add: MakeDay_def m Let_def days_moved_back_def DateFromTime_def DayWithinYear_def
        InLeapYear_def)
qed

lemma MakeDate_Day: "MakeDate (Day t - k) (TimeWithinDay t) = t - k * msPerDay"
  by (simp add: MakeDate_def Day_def TimeWithinDay_def algebra_simps)

lemma setDate_getDate:
  "setDate h (Some t0) (map_option (\<lambda>date. of_int date - days) (getDate h (Some t0))) =
     TimeClip (UTC h (LocalTime h t0 -
       days_moved_back (DateFromTime (LocalTime h t0)) days * msPerDay))"
  by (simp add: setDate_def getDate_def Let_def MakeDay_DateFromTime MakeDate_Day)

lemma digit_not_T: "d < 10 \<Longrightarrow> char_of (48 + d :: nat) \<noteq> CHR ''T''"
proof
  assume d: "d < 10" and "char_of (48 + d) = CHR ''T''"
  then have "(of_char (char_of (48 + d)) :: nat) = of_char CHR ''T''" by simp
  with d show False by simp
qed

lemma digits_of_not_T: "CHR ''T'' \<notin> set (digits_of n)"
proof (induction n rule: digits_of.induct)
  case (1 n)
  show ?case
  proof (cases "n < 10")
    case True
    then show ?thesis
      using digit_not_T [of n] by (subst digits_of.simps) auto
  next
    case False
    then show ?thesis
      using 1 digit_not_T [of "n mod 10"] by (subst digits_of.simps) auto
  qed
qed

lemma pad_not_T: "CHR ''T'' \<notin> set (pad w n)"
  by (auto simp: pad_def Let_def digits_of_not_T)

lemma iso_date_not_T: "CHR ''T'' \<notin> set (iso_date t)"
  by (auto simp: iso_date_def iso_year_def pad_not_T)

lemma before_T_iso: "before_T (iso_date t @ CHR ''T'' # rest) = iso_date t"
proof -
  have "\<forall>c \<in> set (iso_date t). c \<noteq> CHR ''T''"
    using iso_date_not_T [of t] by blast
  then show ?thesis
    by (simp add: before_T_def takeWhile_append2 del: takeWhile_append)
qed

lemma date_threshold_local:
  "date_threshold h days =
     (case TimeClip (UTC h (LocalTime h (now h) -
             days_moved_back (DateFromTime (LocalTime h (now h))) days * msPerDay)) of
        None \<Rightarrow> Inl (ErrorObj ''Invalid time value'')
      | Some u \<Rightarrow> Inr (iso_date u))"
  unfolding date_threshold_def new_Date_def Let_def setDate_getDate
  by (simp add: toISOString_def before_T_iso split: option.splits)

lemma Day_shift: "Day (t - k * msPerDay) = Day t - k"
  by (simp add: Day_def msPerDay_def)

lemma Day_of_day: "Day (d * msPerDay) = d"
  by (simp add: Day_def msPerDay_def)

lemma iso_date_Day: "Day t = Day t' \<Longrightarrow> iso_date t = iso_date t'"
  by (simp add: iso_date_def YearFromTime_def DateFromTime_def MonthFromTime_def
      DayWithinYear_def InLeapYear_def)

lemma iso_date_shift: "iso_date (t - k * msPerDay) = utc_date_string (Day t - k)"
  unfolding utc_date_string_def
  by (rule iso_date_Day) (simp add: Day_shift Day_of_day)

lemma date_threshold_fixed_offset:
  assumes "\<forall>t isUTC. LocalTZA h t isUTC = offset"
      and "\<bar>now h - k * msPerDay\<bar> \<le> 8640000000000000"
  shows "date_threshold h (of_int k) = Inr (utc_date_string (Day (now h) - k))"
proof -
  have "UTC h (LocalTime h (now h) - k * msPerDay) = now h - k * msPerDay"
    using assms(1) by (simp add: UTC_def LocalTime_def)
  then show ?thesis
    using assms(2)
    by (simp add: date_threshold_local days_moved_back_of_int TimeClip_def iso_date_shift)
qed

text \<open>
  The calendar functions are sound: \<open>YearFromTime\<close> is the year in which the day lies,
  the day of the month lies between 1 and 31, and so the date has the form \<open>YYYY-MM-DD\<close>
  for the years 0 to 9999.
\<close>

lemma div_bounds:
  fixes x k :: int
  assumes "0 < k"
  shows "k * (x div k) \<le> x" "x < k * (x div k) + k"
  using mult_div_mod_eq [of k x] pos_mod_sign [OF assms, of x] pos_mod_bound [OF assms, of x]
  by linarith+

lemma DayFromYear_upper: "10000 * DayFromYear y \<le> 3652425 * y - 7195262525"
  unfolding DayFromYear_def
  using div_bounds(1) [of 4 "y - 1969"] div_bounds(2) [of 100 "y - 1901"]
    div_bounds(1) [of 400 "y - 1601"]
  by (simp add: algebra_simps)

lemma DayFromYear_lower: "3652425 * y - 7195289900 \<le> 10000 * DayFromYear y"
  unfolding DayFromYear_def
  using div_bounds(2) [of 4 "y - 1969"] div_bounds(1) [of 100 "y - 1901"]
    div_bounds(2) [of 400 "y - 1601"]
  by (simp add: algebra_simps)

lemma YearFromTime_spec:
  "DayFromYear (YearFromTime t) \<le> Day t \<and> Day t < DayFromYear (YearFromTime t + 1)"
proof -
  define d where "d = Day t"
  define e where "e = (d * 10000) div 3652425"
  have e: "3652425 * e \<le> d * 10000" "d * 10000 < 3652425 * e + 3652425"
    using div_bounds [of 3652425 "d * 10000"] by (simp_all add: e_def)
  have "10000 * DayFromYear (1970 + e - 1) \<le> 10000 * d"
    using DayFromYear_upper [of "1970 + e - 1"] e by (simp add: algebra_simps)
  then have up: "DayFromYear (1970 + e - 1) \<le> d" by simp
  have "10000 * d < 10000 * DayFromYear (1970 + e + 1 + 1)"
    using DayFromYear_lower [of "1970 + e + 1 + 1"] e by (simp add: algebra_simps)
  then have lo: "d < DayFromYear (1970 + e + 1 + 1)" by simp
  show ?thesis
    unfolding YearFromTime_def Let_def d_def [symmetric] e_def [symmetric]
    using up lo by auto
qed

lemma step_div:
  fixes x k :: int
  assumes "0 < k"
  shows "(x + 1) div k = (if (x + 1) mod k = 0 then x div k + 1 else x div k)"
proof -
  define q where "q = x div k"
  define r where "r = x mod k"
  have x: "x = k * q + r" and r: "0 \<le> r" "r < k"
    using assms by (simp_all add: q_def r_def)
  show ?thesis
  proof (cases "r + 1 = k")
    case True
    then have e: "x + 1 = k * (q + 1) + 0" using x by (simp add: algebra_simps)
    have "(x + 1) div k = q + 1" using e assms by (intro int_div_pos_eq [of _ _ _ 0]) simp_all
    moreover have "(x + 1) mod k = 0" using e assms by (intro int_mod_pos_eq [of _ _ "q + 1"]) simp_all
    ultimately show ?thesis by (simp add: q_def)
  next
    case False
    with r have r1: "0 \<le> r + 1" "r + 1 < k" by simp_all
    have e: "x + 1 = k * q + (r + 1)" using x by simp
    have "(x + 1) div k = q" using e r1 by (intro int_div_pos_eq [of _ _ _ "r + 1"]) simp_all
    moreover have "(x + 1) mod k = r + 1" using e r1 by (intro int_mod_pos_eq [of _ _ q]) simp_all
    ultimately show ?thesis using r by (simp add: q_def)
  qed
qed

lemma mod_of_multiple:
  fixes y :: int
  assumes "y mod (a * b) = 0"
  shows "y mod a = 0"
proof -
  from assms have "a * b dvd y" by (simp add: dvd_eq_mod_eq_0)
  then have "a dvd y" by (rule dvd_mult_left)
  then show ?thesis by (simp add: dvd_eq_mod_eq_0)
qed

lemma year_mods:
  fixes y :: int
  shows "(y - 1968) mod 4 = y mod 4"
    "(y - 1900) mod 100 = y mod 100"
    "(y - 1600) mod 400 = y mod 400"
  using mod_mult_self1 [of y "-492" 4] mod_mult_self1 [of y "-19" 100]
    mod_mult_self1 [of y "-4" 400]
  by simp_all

lemma DayFromYear_next: "DayFromYear (y + 1) = DayFromYear y + DaysInYear y"
proof -
  have a: "(y + 1 - 1969) div 4 = (y - 1969) div 4 + (if y mod 4 = 0 then 1 else 0)"
    using step_div [of 4 "y - 1969"] year_mods(1) [of y] by (simp add: algebra_simps)
  have b: "(y + 1 - 1901) div 100 = (y - 1901) div 100 + (if y mod 100 = 0 then 1 else 0)"
    using step_div [of 100 "y - 1901"] year_mods(2) [of y] by (simp add: algebra_simps)
  have c: "(y + 1 - 1601) div 400 = (y - 1601) div 400 + (if y mod 400 = 0 then 1 else 0)"
    using step_div [of 400 "y - 1601"] year_mods(3) [of y] by (simp add: algebra_simps)
  have d: "y mod 100 = 0 \<Longrightarrow> y mod 4 = 0" "y mod 400 = 0 \<Longrightarrow> y mod 100 = 0"
    using mod_of_multiple [of y 4 25] mod_of_multiple [of y 100 4] by simp_all
  show ?thesis
    unfolding DayFromYear_def DaysInYear_def a b c
    using d by auto
qed

lemma DayWithinYear_range:
  "0 \<le> DayWithinYear t \<and> DayWithinYear t < DaysInYear (YearFromTime t)"
  using YearFromTime_spec [of t] by (simp add: DayWithinYear_def DayFromYear_next)

lemma DaysInYear_cases: "DaysInYear y = 365 \<or> DaysInYear y = 366"
  by (simp add: DaysInYear_def)

lemma DateFromTime_range: "1 \<le> DateFromTime t \<and> DateFromTime t \<le> 31"
proof -
  define d where "d = DayWithinYear t"
  define l where "l = InLeapYear t"
  have d: "0 \<le> d" "d < 365 + l"
    using DayWithinYear_range [of t] DaysInYear_cases [of "YearFromTime t"]
    by (auto simp: d_def l_def InLeapYear_def)
  have l: "l = 0 \<or> l = 1" by (simp add: l_def InLeapYear_def)
  show ?thesis
    unfolding DateFromTime_def MonthFromTime_def month_start_def Let_def
      d_def [symmetric] l_def [symmetric]
    using d l by auto
qed

lemma length_digits_of: "n < 10 ^ w \<Longrightarrow> 0 < w \<Longrightarrow> length (digits_of n) \<le> w"
proof (induction w arbitrary: n)
  case 0
  then show ?case by simp
next
  case (Suc w)
  show ?case
  proof (cases "n < 10")
    case True
    then show ?thesis by (subst digits_of.simps) simp
  next
    case False
    with Suc.prems have w: "0 < w" by (cases w) auto
    from Suc.prems have "n div 10 < 10 ^ w" by (simp add: less_mult_imp_div_less mult.commute)
    with Suc.IH w have "length (digits_of (n div 10)) \<le> w" by blast
    with False show ?thesis by (subst digits_of.simps) simp
  qed
qed

lemma length_pad: "0 \<le> n \<Longrightarrow> n < 10 ^ w \<Longrightarrow> 0 < w \<Longrightarrow> length (pad w n) = w"
proof -
  assume n: "0 \<le> n" "n < 10 ^ w" and w: "0 < w"
  from n have "nat n < 10 ^ w"
    by (metis nat_less_iff of_nat_numeral of_nat_power)
  then have "length (digits_of (nat n)) \<le> w" using w by (rule length_digits_of)
  then show ?thesis by (simp add: pad_def Let_def)
qed

lemma utc_date_string_shape:
  assumes "0 \<le> YearFromTime (d * msPerDay)" "YearFromTime (d * msPerDay) \<le> 9999"
  shows "length (utc_date_string d) = 10 \<and> utc_date_string d ! 4 = CHR ''-'' \<and>
         utc_date_string d ! 7 = CHR ''-''"
proof -
  let ?t = "d * msPerDay"
  have y: "length (pad 4 (YearFromTime ?t)) = 4"
    using assms by (intro length_pad) simp_all
  have m: "length (pad 2 (MonthFromTime ?t + 1)) = 2"
    using MonthFromTime_range [of ?t] by (intro length_pad) simp_all
  have dd: "length (pad 2 (DateFromTime ?t)) = 2"
    using DateFromTime_range [of ?t] by (intro length_pad) simp_all
  show ?thesis
    using assms y m dd
    by (simp add: utc_date_string_def iso_date_def iso_year_def nth_append)
qed

lemma toString_pages:
  "toString_num 1 = ''1''" "toString_num 100 = ''100''" "toString_num 50 = ''50''"
  by code_simp+

lemma searchTickets_sent:
  "snd (searchTickets remote client query page perPage sent) =
     sent @ [request_of client ''/search.json''
               (Some [(''query'', ''type:ticket '' @ query),
                      (''per_page'', toString_num (dflt 50 perPage)),
                      (''page'', toString_num (dflt 1 page))])]"
  by (simp add: searchTickets_def request_def Let_def split: sum.splits)

lemma searchArticles_sent:
  "snd (searchArticles remote client query page perPage sent) =
     sent @ [request_of client ''/help_center/articles/search.json''
               (Some [(''query'', query),
                      (''per_page'', toString_num (dflt 50 perPage)),
                      (''page'', toString_num (dflt 1 page))])]"
  by (simp add: searchArticles_def request_def Let_def split: sum.splits)

lemma feedback_sent:
  assumes "feedback_ticket_query h (a_feature_name args) (dflt True (a_include_solved args))
             (dflt 90 (a_days_back args)) = Inr q"
  shows "snd (call_tool h remote client ''search_feature_feedback'' args sent) =
     sent @ [request_of client ''/search.json''
               (Some [(''query'', ''type:ticket '' @ q), (''per_page'', ''100''), (''page'', ''1'')]),
             request_of client ''/help_center/articles/search.json''
               (Some [(''query'', a_feature_name args), (''per_page'', ''50''), (''page'', ''1'')])]"
proof -
  obtain r1 s1 where t: "searchTickets remote client q (Some 1) (Some 100) sent = (r1, s1)"
    by (cases "searchTickets remote client q (Some 1) (Some 100) sent")
  obtain r2 s2 where a: "searchArticles remote client (a_feature_name args) (Some 1) (Some 50) s1 = (r2, s2)"
    by (cases "searchArticles remote client (a_feature_name args) (Some 1) (Some 50) s1")
  have s1: "s1 = sent @ [request_of client ''/search.json''
               (Some [(''query'', ''type:ticket '' @ q), (''per_page'', ''100''), (''page'', ''1'')])]"
    using searchTickets_sent [of remote client q "Some 1" "Some 100" sent] t
    by (simp add: dflt_def toString_pages)
  have s2: "s2 = s1 @ [request_of client ''/help_center/articles/search.json''
               (Some [(''query'', a_feature_name args), (''per_page'', ''50''), (''page'', ''1'')])]"
    using searchArticles_sent [of remote client "a_feature_name args" "Some 1" "Some 50" s1] a
    by (simp add: dflt_def toString_pages)
  have "snd (run_tool h remote client ''search_feature_feedback'' args sent) = s2"
    using assms t a
    by (simp add: run_tool_def handle_search_feature_feedback_def Let_def split: sum.splits prod.splits)
  moreover have "snd (call_tool h remote client ''search_feature_feedback'' args sent) =
      snd (run_tool h remote client ''search_feature_feedback'' args sent)"
    by (simp add: call_tool_def split: prod.splits sum.splits)
  ultimately show ?thesis by (simp add: s1 s2)
qed

text \<open>
  Claim C3, as amended. For a call with a whole number of \<open>days_back\<close>, on a host whose
  local time has a fixed offset from UTC (a host on UTC, for one), and when the date
  \<open>days_back\<close> days ago is a valid \<open>Date\<close>, the ticket query of \<open>search_feature_feedback\<close>
  is \<open><feature_name> created><threshold>\<close>, where the threshold is the date of today (UTC)
  minus \<open>days_back\<close> days in the format of \<open>toISOString\<close>, which is \<open>YYYY-MM-DD\<close> for the
  years 0 to 9999; \<open> status<solved\<close> is appended if and only if \<open>include_solved\<close> is
  false. This query (behind the prefix \<open>type:ticket\<close> of the client) is sent as the ticket
  search, before the article search.
\<close>

theorem feedback_ticket_query_fixed_offset:
  assumes "\<forall>t isUTC. LocalTZA h t isUTC = offset"
      and "dflt 90 (a_days_back args) = of_int days"
      and "\<bar>now h - days * msPerDay\<bar> \<le> 8640000000000000"
  shows "\<exists>threshold ticketQuery.
           threshold = utc_date_string (Day (now h) - days) \<and>
           ticketQuery = a_feature_name args @ '' created>'' @ threshold @
              (if dflt True (a_include_solved args) then [] else '' status<solved'') \<and>
           feedback_ticket_query h (a_feature_name args) (dflt True (a_include_solved args))
              (dflt 90 (a_days_back args)) = Inr ticketQuery \<and>
           snd (call_tool h remote client ''search_feature_feedback'' args sent) =
             sent @ [request_of client ''/search.json''
                       (Some [(''query'', ''type:ticket '' @ ticketQuery),
                              (''per_page'', ''100''), (''page'', ''1'')]),
                     request_of client ''/help_center/articles/search.json''
                       (Some [(''query'', a_feature_name args),
                              (''per_page'', ''50''), (''page'', ''1'')])] \<and>
           (0 \<le> YearFromTime ((Day (now h) - days) * msPerDay) \<and>
            YearFromTime ((Day (now h) - days) * msPerDay) \<le> 9999 \<longrightarrow>
              length threshold = 10 \<and> threshold ! 4 = CHR ''-'' \<and> threshold ! 7 = CHR ''-'')"
proof -
  let ?th = "utc_date_string (Day (now h) - days)"
  let ?q = "a_feature_name args @ '' created>'' @ ?th @
              (if dflt True (a_include_solved args) then [] else '' status<solved'')"
  have d: "date_threshold h (dflt 90 (a_days_back args)) = Inr ?th"
    unfolding assms(2) by (rule date_threshold_fixed_offset [OF assms(1,3)])
  have q: "feedback_ticket_query h (a_feature_name args) (dflt True (a_include_solved args))
             (dflt 90 (a_days_back args)) = Inr ?q"
    by (simp add: feedback_ticket_query_def d Let_def)
  have s: "snd (call_tool h remote client ''search_feature_feedback'' args sent) =
             sent @ [request_of client ''/search.json''
                       (Some [(''query'', ''type:ticket '' @ ?q),
                              (''per_page'', ''100''), (''page'', ''1'')]),
                     request_of client ''/help_center/articles/search.json''
                       (Some [(''query'', a_feature_name args),
                              (''per_page'', ''50''), (''page'', ''1'')])]"
    by (rule feedback_sent [OF q])
  have f: "0 \<le> YearFromTime ((Day (now h) - days) * msPerDay) \<and>
            YearFromTime ((Day (now h) - days) * msPerDay) \<le> 9999 \<longrightarrow>
              length ?th = 10 \<and> ?th ! 4 = CHR ''-'' \<and> ?th ! 7 = CHR ''-''"
    using utc_date_string_shape [of "Day (now h) - days"] by blast
  from q s f show ?thesis by blast
qed

lemma example_utc_threshold: "utc_date_string (Day 1712014200000 - 30) = ''2024-03-02''"
  by code_simp

theorem feedback_ticket_query_fixed_offset_witness:
  "feedback_ticket_query example_host_utc ''dark mode'' False 30 =
     Inr ''dark mode created>2024-03-02 status<solved'' \<and>
   snd (call_tool example_host_utc example_remote example_client ''search_feature_feedback''
          example_args []) =
     [request_of example_client ''/search.json''
        (Some [(''query'', ''type:ticket dark mode created>2024-03-02 status<solved''),
               (''per_page'', ''100''), (''page'', ''1'')]),
      request_of example_client ''/help_center/articles/search.json''
        (Some [(''query'', ''dark mode''), (''per_page'', ''50''), (''page'', ''1'')])] \<and>
   length (utc_date_string (Day (now example_host_utc) - 30)) = 10"
proof -
  have z: "\<forall>t isUTC. LocalTZA example_host_utc t isUTC = 0"
    by (simp add: example_host_utc_def utc_zone_def)
  have a: "a_feature_name example_args = ''dark mode''" "dflt 90 (a_days_back example_args) = 30"
    "dflt True (a_include_solved example_args) = False" "now example_host_utc = 1712014200000"
    by (simp_all add: example_args_def dflt_def example_host_utc_def)
  have w: "dflt 90 (a_days_back example_args) = of_int 30"
    by (simp add: a)
  have r: "\<bar>now example_host_utc - 30 * msPerDay\<bar> \<le> 8640000000000000"
    by (simp add: a msPerDay_def)
  show ?thesis
    using feedback_ticket_query_fixed_offset [OF z w r, of example_remote example_client "[]"]
    by (simp add: a example_utc_threshold)
qed

lemma example_cet_query:
  "feedback_ticket_query example_host_cet ''dark mode'' False 30 =
     Inr ''dark mode created>2024-03-03 status<solved''"
  by code_simp

text \<open>
  Claim C3 as stated fails on a host whose local time changes its offset from UTC in
  between: \<open>getDate\<close> and \<open>setDate\<close> count days in local time. On Central European
  time, at 1 April 2024, 23:30 UTC, the threshold for 30 days is 3 March 2024, while
  today (UTC) minus 30 days is 2 March 2024.
\<close>

theorem feedback_ticket_query_counterexample:
  "feedback_ticket_query example_host_cet ''dark mode'' False 30 =
     Inr ''dark mode created>2024-03-03 status<solved'' \<and>
   utc_date_string (Day (now example_host_cet) - 30) = ''2024-03-02''"
proof -
  have "now example_host_cet = 1712014200000"
    by (simp add: example_host_cet_def)
  then show ?thesis
    by (simp add: example_cet_query example_utc_threshold)
qed

text \<open>
  A number of days with a fraction: \<open>setDate\<close> cuts the fraction of the day of the month
  minus \<open>days_back\<close> off toward zero. On the UTC host, on 1 April 2024, half a day and
  one and a half days both give the threshold of one day back, 31 March 2024.
\<close>

lemma fractional_days_back:
  "feedback_ticket_query example_host_utc ''dark mode'' True (1 / 2) =
     Inr ''dark mode created>2024-03-31''"
  "feedback_ticket_query example_host_utc ''dark mode'' True (3 / 2) =
     Inr ''dark mode created>2024-03-31''"
  "days_moved_back 1 (1 / 2) = 1"
  "days_moved_back 1 (3 / 2) = 1"
  by code_simp+

text \<open>
  Claim C7, as amended. On a host whose local time has a fixed offset from UTC, and when
  the date 30 days ago is a valid \<open>Date\<close>, the threshold that \<open>getRecentTickets\<close>
  computes is the date of today (UTC) minus 30 days, and for every \<open>page\<close> and
  \<open>perPage\<close> (given or left to their defaults) \<open>getRecentTickets(page, perPage)\<close> returns
  what \<open>searchTickets("created><threshold>", page, perPage)\<close> returns and sends the same
  request.
\<close>

theorem getRecentTickets_fixed_offset:
  assumes "\<forall>t isUTC. LocalTZA h t isUTC = offset"
      and "\<bar>now h - 30 * msPerDay\<bar> \<le> 8640000000000000"
  shows "date_threshold h 30 = Inr (utc_date_string (Day (now h) - 30)) \<and>
         getRecentTickets h remote client page perPage sent =
           searchTickets remote client (''created>'' @ utc_date_string (Day (now h) - 30))
             page perPage sent"
proof -
  have d: "date_threshold h 30 = Inr (utc_date_string (Day (now h) - 30))"
    using date_threshold_fixed_offset [OF assms] by simp
  have "getRecentTickets h remote client page perPage sent =
           searchTickets remote client (''created>'' @ utc_date_string (Day (now h) - 30))
             page perPage sent"
    by (simp add: getRecentTickets_def d searchTickets_def dflt_def split: option.splits)
  with d show ?thesis by simp
qed

theorem getRecentTickets_fixed_offset_witness:
  "date_threshold example_host_utc 30 = Inr ''2024-03-02'' \<and>
   getRecentTickets example_host_utc example_remote example_client None None [] =
     searchTickets example_remote example_client ''created>2024-03-02'' None None []"
proof -
  have z: "\<forall>t isUTC. LocalTZA example_host_utc t isUTC = 0"
    by (simp add: example_host_utc_def utc_zone_def)
  have n: "now example_host_utc = 1712014200000"
    by (simp add: example_host_utc_def)
  have r: "\<bar>now example_host_utc - 30 * msPerDay\<bar> \<le> 8640000000000000"
    by (simp add: n msPerDay_def)
  show ?thesis
    using getRecentTickets_fixed_offset [OF z r, of example_remote example_client None None "[]"]
    by (simp add: n example_utc_threshold)
qed

lemma example_cet_threshold: "date_threshold example_host_cet 30 = Inr ''2024-03-03''"
  by code_simp

lemma example_recent_sent:
  "snd (getRecentTickets example_host_cet example_remote example_client None None []) =
     [request_of example_client ''/search.json''
        (Some [(''query'', ''type:ticket created>2024-03-03''), (''per_page'', ''50''), (''page'', ''1'')])]"
  by (simp add: getRecentTickets_def example_cet_threshold searchTickets_sent dflt_def toString_pages)

text \<open>
  Claim C7 as stated fails on a host whose local time changes its offset from UTC in
  between: on Central European time, at 1 April 2024, 23:30 UTC, \<open>getRecentTickets\<close>
  searches from 3 March 2024 on, while today (UTC) minus 30 days is 2 March 2024.
\<close>

theorem getRecentTickets_counterexample:
  "date_threshold example_host_cet 30 = Inr ''2024-03-03'' \<and>
   utc_date_string (Day (now example_host_cet) - 30) = ''2024-03-02'' \<and>
   getRecentTickets example_host_cet example_remote example_client None None [] \<noteq>
     searchTickets example_remote example_client
       (''created>'' @ utc_date_string (Day (now example_host_cet) - 30)) None None []"
proof -
  have n: "now example_host_cet = 1712014200000"
    by (simp add: example_host_cet_def)
  have u: "utc_date_string (Day (now example_host_cet) - 30) = ''2024-03-02''"
    by (simp add: n example_utc_threshold)
  have "snd (getRecentTickets example_host_cet example_remote example_client None None []) \<noteq>
        snd (searchTickets example_remote example_client ''created>2024-03-02'' None None [])"
    by (simp add: example_recent_sent searchTickets_sent request_of_def)
  then have "getRecentTickets example_host_cet example_remote example_client None None [] \<noteq>
     searchTickets example_remote example_client ''created>2024-03-02'' None None []"
    by auto
  then show ?thesis
    by (simp add: example_cet_threshold u)
qed

end
